theory Spec2Isabelle
  imports Main "HOL-Library.Sublist" "HOL-Library.AList"
begin

section \<open>Guest customization of a virtual machine (package session)\<close>

text \<open>
  A shallow embedding of the customization pass of the vSphere provider:
  \<^verbatim>\<open>Session.customize\<close> and the functions it calls. The functions of the file are
  translated one by one. Code the file calls but does not contain (the gzip+base64 codec,
  \<^verbatim>\<open>MergeExtraConfig\<close>, \<^verbatim>\<open>GetMergedvAppConfigSpec\<close>, the network package,
  the YAML and template libraries, the feature switch, the remote calls of the VM
  resource and the string constants of package \<^verbatim>\<open>constants\<close>) is a parameter of the
  model: every theorem holds for every value of these parameters, unless it says otherwise.
\<close>

subsection \<open>Strings and maps of Go\<close>

text \<open>
  A Go \<^verbatim>\<open>map[string]string\<close> is an association list with pairwise distinct keys; the
  order of the list is one of the orders in which \<^verbatim>\<open>range\<close> may visit the map.
  Indexing a map at an absent key yields the empty string.
\<close>

type_synonym StringMap = "(string \<times> string) list"

definition map_index :: "StringMap \<Rightarrow> string \<Rightarrow> string" where
  "map_index m k = (case map_of m k of None \<Rightarrow> [] | Some v \<Rightarrow> v)"

definition map_store :: "StringMap \<Rightarrow> string \<Rightarrow> string \<Rightarrow> StringMap" where
  "map_store m k v = AList.update k v m"

text \<open>\<^verbatim>\<open>strings.HasPrefix\<close>, \<^verbatim>\<open>strings.Contains\<close> and \<^verbatim>\<open>strings.ReplaceAll\<close>.
  \<^verbatim>\<open>ReplaceAll\<close> replaces the non-overlapping occurrences of \<open>old\<close> from left to
  right. Both calls of the file pass a two-byte literal for \<open>old\<close>; for an empty \<open>old\<close>
  (where Go inserts \<open>new\<close> around every UTF-8 sequence) the model returns the string as
  it is, and no theorem uses that case.\<close>

definition HasPrefix :: "string \<Rightarrow> string \<Rightarrow> bool" where
  "HasPrefix s p = prefix p s"

fun Contains :: "string \<Rightarrow> string \<Rightarrow> bool" where
  "Contains [] substr = (substr = [])"
| "Contains (c # cs) substr = (prefix substr (c # cs) \<or> Contains cs substr)"

function ReplaceAll :: "string \<Rightarrow> string \<Rightarrow> string \<Rightarrow> string" where
  "ReplaceAll [] old new = []"
| "ReplaceAll (c # cs) old new =
     (if old \<noteq> [] \<and> prefix old (c # cs)
      then new @ ReplaceAll (drop (length old) (c # cs)) old new
      else c # ReplaceAll cs old new)"
  by pat_completeness auto
termination
  by (relation "measure (\<lambda>(s, old, new). length s)") (auto simp: neq_Nil_conv)

subsection \<open>Errors\<close>

text \<open>
  An error value is a task error carrying a fault (\<^verbatim>\<open>task.Error\<close>), an error built by
  \<^verbatim>\<open>fmt.Errorf\<close> from a message and the error it prints with \<^verbatim>\<open>%v\<close>, or any other
  error. \<^verbatim>\<open>Errorf\<close> with \<^verbatim>\<open>%v\<close> builds a fresh error: it is never a task error.
\<close>

datatype Fault = CustomizationPending | OtherFault string

datatype error = TaskError Fault | Errorf string error | OtherError string

subsection \<open>Types of the vSphere API and of the VM operator API\<close>

text \<open>The value of an option is of interface type \<^verbatim>\<open>AnyType\<close>: a string or
  anything else. \<^verbatim>\<open>GetOptionValue()\<close> of a \<^verbatim>\<open>BaseOptionValue\<close> may be nil.\<close>

datatype AnyType = StringValue string | OtherValue

record OptionValue =
  Key :: string
  Value :: AnyType

type_synonym BaseOptionValue = "OptionValue option"

text \<open>\<^verbatim>\<open>VirtualMachineConfigInfo\<close>, the live configuration: \<open>VAppConfig\<close> is \<open>None\<close>
  when the interface is nil, \<open>Some None\<close> when its \<^verbatim>\<open>GetVmConfigInfo()\<close> is nil.\<close>

record 'prop VmConfigInfo =
  Property :: "'prop list"

record 'prop VirtualMachineConfigInfo =
  ExtraConfig :: "BaseOptionValue list"
  VAppConfig :: "'prop VmConfigInfo option option"

text \<open>\<^verbatim>\<open>VirtualMachineConfigSpec\<close>: the three fields the file sets. A nil slice and an
  empty slice are both the empty list.\<close>

record 'vapp VirtualMachineConfigSpec =
  spec_ExtraConfig :: "BaseOptionValue list"
  spec_VAppConfig :: "'vapp option"
  VAppConfigRemoved :: "bool option"

datatype BaseCustomizationIdentitySettings =
    CustomizationLinuxPrep (HostName: string) (HwClockUTC: "bool option")
  | CustomizationCloudinitPrep (Metadata: string) (Userdata: string)

record 'nic CustomizationSpec =
  Identity :: BaseCustomizationIdentitySettings
  DnsServerList :: "string list"
  NicSettingMap :: "'nic list"

datatype VirtualMachineMetadataTransport =
    VirtualMachineMetadataCloudInitTransport
  | VirtualMachineMetadataOvfEnvTransport
  | VirtualMachineMetadataExtraConfigTransport
  | VirtualMachineMetadataOtherTransport

record VirtualMachine =
  UID :: string
  Name :: string
  Annotations :: StringMap

record NetworkDeviceStatus =
  Gateway4 :: string
  IPAddresses :: "string list"

record NetworkStatus =
  Devices :: "NetworkDeviceStatus list"
  Nameservers :: "string list"

record VirtualMachineTemplate =
  Net :: NetworkStatus
  VM :: VirtualMachine

subsection \<open>Types of the package\<close>

record IPConfig =
  IP :: string
  SubnetMask :: string
  Gateway :: string

record InterfaceInfo =
  IPConfiguration :: IPConfig

record VMMetadata =
  Data :: StringMap
  Transport :: VirtualMachineMetadataTransport

record VMUpdateArgs =
  VMMetadata :: VMMetadata
  NetIfList :: "InterfaceInfo list"
  DNSServers :: "string list"

record 'np CloudInitMetadata =
  InstanceID :: string
  LocalHostname :: string
  Hostname :: string
  Network :: 'np
  PublicKeys :: string

subsection \<open>Parameters: constants, collaborators, remote calls\<close>

text \<open>The string constants of package \<^verbatim>\<open>constants\<close>.\<close>

record Constants =
  GOSCPendingExtraConfigKey :: string
  CloudInitGuestInfoMetadata :: string
  CloudInitGuestInfoMetadataEncoding :: string
  CloudInitGuestInfoUserdata :: string
  CloudInitGuestInfoUserdataEncoding :: string
  ExtraConfigGuestInfoPrefix :: string
  CloudInitTypeAnnotation :: string
  CloudInitTypeValueCloudInitPrep :: string
  CloudInitTypeValueGuestInfo :: string
  VSphereCustomizationBypassKey :: string
  VSphereCustomizationBypassDisable :: string

text \<open>The functions the file calls and does not contain. A function with an error
  result returns \<open>Inl\<close> the error.\<close>

record ('eth, 'np, 'nic, 'prop, 'vapp, 'tmpl) Collaborators =
  constants :: Constants
  IsVMServicePublicCloudBYOIFSSEnabled :: bool
  EncodeGzipBase64 :: "string \<Rightarrow> error + string"
  TryToDecodeBase64Gzip :: "string \<Rightarrow> error + string"
  MergeExtraConfig :: "BaseOptionValue list \<Rightarrow> StringMap \<Rightarrow> BaseOptionValue list"
  GetMergedvAppConfigSpec :: "StringMap \<Rightarrow> 'prop list \<Rightarrow> 'vapp option"
  GetNetplan :: "InterfaceInfo list \<Rightarrow> 'eth \<Rightarrow> string list \<Rightarrow> 'np"
  GetInterfaceCustomizations :: "InterfaceInfo list \<Rightarrow> 'nic list"
  ToCidrNotation :: "string \<Rightarrow> string \<Rightarrow> string"
  yaml_Marshal :: "'np CloudInitMetadata \<Rightarrow> error + string"
  template_Parse :: "string \<Rightarrow> string \<Rightarrow> error + 'tmpl"
  template_Execute :: "'tmpl \<Rightarrow> VirtualMachineTemplate \<Rightarrow> error + string"

text \<open>The VM resource \<^verbatim>\<open>resVM\<close>: what each of its three remote calls answers in this
  pass (\<open>None\<close> is a nil error).\<close>

record ('eth, 'nic, 'vapp) ResourceVM =
  GetNetworkDevices :: "error + 'eth"
  Reconfigure :: "'vapp VirtualMachineConfigSpec \<Rightarrow> error option"
  Customize :: "'nic CustomizationSpec \<Rightarrow> error option"

subsection \<open>Results of a pass\<close>

text \<open>A pass of \<^verbatim>\<open>customize\<close> is observed through the error it returns (or the run-time
  panic that ends it), the calls it made that change the VM, in order, and the metadata
  mapping it leaves behind: the mapping of \<^verbatim>\<open>updateArgs\<close> is shared with the caller and
  templating writes into it.\<close>

datatype ('nic, 'vapp) RemoteCall =
    is_ReconfigureCall: ReconfigureCall "'vapp VirtualMachineConfigSpec"
  | is_CustomizeCall: CustomizeCall "'nic CustomizationSpec"

datatype Completion = Returns "error option" | Panics

record ('nic, 'vapp) Pass =
  completion :: Completion
  calls :: "('nic, 'vapp) RemoteCall list"
  stored :: StringMap

subsection \<open>Pending customization\<close>

text \<open>The first option under the pending key decides. Its value is asserted to be a
  string: the assertion panics on any other value, which is the result \<open>None\<close>.\<close>

fun IsCustomizationPendingExtraConfig :: "Constants \<Rightarrow> BaseOptionValue list \<Rightarrow> bool option" where
  "IsCustomizationPendingExtraConfig C [] = Some False"
| "IsCustomizationPendingExtraConfig C (opt # extraConfig) =
     (case opt of
        None \<Rightarrow> IsCustomizationPendingExtraConfig C extraConfig
      | Some optValue \<Rightarrow>
          if Key optValue = GOSCPendingExtraConfigKey C
          then (case Value optValue of
                  StringValue s \<Rightarrow> Some (s \<noteq> [])
                | OtherValue \<Rightarrow> None)
          else IsCustomizationPendingExtraConfig C extraConfig)"

fun isCustomizationPendingError :: "error \<Rightarrow> bool" where
  "isCustomizationPendingError (TaskError CustomizationPending) = True"
| "isCustomizationPendingError err = False"

subsection \<open>The specs of each transport\<close>

definition GetLinuxPrepCustSpec ::
  "('eth, 'np, 'nic, 'prop, 'vapp, 'tmpl) Collaborators \<Rightarrow> string \<Rightarrow> VMUpdateArgs
    \<Rightarrow> 'nic CustomizationSpec" where
  "GetLinuxPrepCustSpec E vmName updateArgs =
     \<lparr>Identity = CustomizationLinuxPrep vmName (Some True),
      DnsServerList = DNSServers updateArgs,
      NicSettingMap = GetInterfaceCustomizations E (NetIfList updateArgs)\<rparr>"

definition GetCloudInitMetadata ::
  "('eth, 'np, 'nic, 'prop, 'vapp, 'tmpl) Collaborators \<Rightarrow> VirtualMachine \<Rightarrow> 'np \<Rightarrow> StringMap
    \<Rightarrow> error + string" where
  "GetCloudInitMetadata E vm netplan data =
     (let metadataObj =
            \<lparr>InstanceID = UID vm, LocalHostname = Name vm, Hostname = Name vm,
             Network = netplan, PublicKeys = map_index data ''ssh-public-keys''\<rparr>
      in case yaml_Marshal E metadataObj of
           Inl err \<Rightarrow> Inl (Errorf ''yaml marshalling of cloud-init metadata failed'' err)
         | Inr metadataBytes \<Rightarrow> Inr metadataBytes)"

definition GetCloudInitPrepCustSpec ::
  "('eth, 'np, 'nic, 'prop, 'vapp, 'tmpl) Collaborators \<Rightarrow> string \<Rightarrow> VMUpdateArgs
    \<Rightarrow> error + 'nic CustomizationSpec" where
  "GetCloudInitPrepCustSpec E cloudInitMetadata updateArgs =
     (let userdata = map_index (Data (VMMetadata updateArgs)) ''user-data''
      in if userdata \<noteq> []
         then (case TryToDecodeBase64Gzip E userdata of
                 Inl err \<Rightarrow> Inl (Errorf ''decoding cloud-init prep userdata failed'' err)
               | Inr plainText \<Rightarrow>
                   Inr \<lparr>Identity = CustomizationCloudinitPrep cloudInitMetadata plainText,
                        DnsServerList = [], NicSettingMap = []\<rparr>)
         else Inr \<lparr>Identity = CustomizationCloudinitPrep cloudInitMetadata userdata,
                   DnsServerList = [], NicSettingMap = []\<rparr>)"

text \<open>The first part of \<^verbatim>\<open>GetCloudInitGuestInfoCustSpec\<close>, up to the merge: the local
  map \<^verbatim>\<open>extraConfig\<close> of the updates.\<close>

definition GuestInfoExtraConfig ::
  "('eth, 'np, 'nic, 'prop, 'vapp, 'tmpl) Collaborators \<Rightarrow> string \<Rightarrow> VMUpdateArgs
    \<Rightarrow> error + StringMap" where
  "GuestInfoExtraConfig E cloudInitMetadata updateArgs =
     (case EncodeGzipBase64 E cloudInitMetadata of
        Inl err \<Rightarrow> Inl (Errorf ''encoding cloud-init metadata failed'' err)
      | Inr encodedMetadata \<Rightarrow>
          (let extraConfig =
                 map_store
                   (map_store [] (CloudInitGuestInfoMetadata (constants E)) encodedMetadata)
                   (CloudInitGuestInfoMetadataEncoding (constants E)) ''gzip+base64'';
               userdata = map_index (Data (VMMetadata updateArgs)) ''user-data'';
               val = map_index (Data (VMMetadata updateArgs)) ''value'';
               data = (if userdata \<noteq> [] then userdata
                       else if val \<noteq> [] then val else [])
           in if data \<noteq> []
              then (case TryToDecodeBase64Gzip E data of
                      Inl err \<Rightarrow> Inl (Errorf ''decoding cloud-init userdata failed'' err)
                    | Inr plainText \<Rightarrow>
                        (case EncodeGzipBase64 E plainText of
                           Inl err \<Rightarrow> Inl (Errorf ''encoding cloud-init userdata failed'' err)
                         | Inr encodedUserdata \<Rightarrow>
                             Inr (map_store
                                    (map_store extraConfig
                                       (CloudInitGuestInfoUserdata (constants E)) encodedUserdata)
                                    (CloudInitGuestInfoUserdataEncoding (constants E))
                                    ''gzip+base64'')))
              else Inr extraConfig))"

definition GetCloudInitGuestInfoCustSpec ::
  "('eth, 'np, 'nic, 'prop, 'vapp, 'tmpl) Collaborators \<Rightarrow> string
    \<Rightarrow> 'prop VirtualMachineConfigInfo \<Rightarrow> VMUpdateArgs
    \<Rightarrow> error + 'vapp VirtualMachineConfigSpec" where
  "GetCloudInitGuestInfoCustSpec E cloudInitMetadata config updateArgs =
     (case GuestInfoExtraConfig E cloudInitMetadata updateArgs of
        Inl err \<Rightarrow> Inl err
      | Inr extraConfig \<Rightarrow>
          Inr \<lparr>spec_ExtraConfig = MergeExtraConfig E (ExtraConfig config) extraConfig,
               spec_VAppConfig = None,
               VAppConfigRemoved = Some True\<rparr>)"

text \<open>The loop of \<^verbatim>\<open>GetExtraConfigCustSpec\<close> over the metadata mapping, which collects
  the local map \<^verbatim>\<open>extraConfig\<close>.\<close>

definition PrefixedExtraConfig :: "Constants \<Rightarrow> StringMap \<Rightarrow> StringMap" where
  "PrefixedExtraConfig C data =
     fold (\<lambda>(k, v) extraConfig.
             if HasPrefix k (ExtraConfigGuestInfoPrefix C) then map_store extraConfig k v
             else extraConfig)
          data []"

definition GetExtraConfigCustSpec ::
  "('eth, 'np, 'nic, 'prop, 'vapp, 'tmpl) Collaborators
    \<Rightarrow> 'prop VirtualMachineConfigInfo \<Rightarrow> VMUpdateArgs
    \<Rightarrow> 'vapp VirtualMachineConfigSpec option" where
  "GetExtraConfigCustSpec E config updateArgs =
     (let extraConfig = PrefixedExtraConfig (constants E) (Data (VMMetadata updateArgs))
      in if length extraConfig = 0 then None
         else Some \<lparr>spec_ExtraConfig = MergeExtraConfig E (ExtraConfig config) extraConfig,
                    spec_VAppConfig = None,
                    VAppConfigRemoved = None\<rparr>)"

definition GetOvfEnvCustSpec ::
  "('eth, 'np, 'nic, 'prop, 'vapp, 'tmpl) Collaborators
    \<Rightarrow> 'prop VirtualMachineConfigInfo \<Rightarrow> VMUpdateArgs
    \<Rightarrow> 'vapp VirtualMachineConfigSpec option" where
  "GetOvfEnvCustSpec E config updateArgs =
     (case VAppConfig config of
        None \<Rightarrow> None
      | Some vAppConfig \<Rightarrow>
          (case vAppConfig of
             None \<Rightarrow> None
           | Some vAppConfigInfo \<Rightarrow>
               Some \<lparr>spec_ExtraConfig = [],
                     spec_VAppConfig =
                       GetMergedvAppConfigSpec E (Data (VMMetadata updateArgs))
                         (Property vAppConfigInfo),
                     VAppConfigRemoved = None\<rparr>))"

definition customizeCloudInit ::
  "('eth, 'np, 'nic, 'prop, 'vapp, 'tmpl) Collaborators \<Rightarrow> ('eth, 'nic, 'vapp) ResourceVM
    \<Rightarrow> VirtualMachine \<Rightarrow> 'prop VirtualMachineConfigInfo \<Rightarrow> VMUpdateArgs
    \<Rightarrow> error + ('vapp VirtualMachineConfigSpec option \<times> 'nic CustomizationSpec option)" where
  "customizeCloudInit E resVM vm config updateArgs =
     (case GetNetworkDevices resVM of
        Inl err \<Rightarrow> Inl err
      | Inr ethCards \<Rightarrow>
          (let netplan = GetNetplan E (NetIfList updateArgs) ethCards (DNSServers updateArgs)
           in case GetCloudInitMetadata E vm netplan (Data (VMMetadata updateArgs)) of
                Inl err \<Rightarrow> Inl err
              | Inr cloudInitMetadata \<Rightarrow>
                  if map_index (Annotations vm) (CloudInitTypeAnnotation (constants E))
                       = CloudInitTypeValueCloudInitPrep (constants E)
                  then (case GetCloudInitPrepCustSpec E cloudInitMetadata updateArgs of
                          Inl err \<Rightarrow> Inl err
                        | Inr custSpec \<Rightarrow> Inr (None, Some custSpec))
                  else (case GetCloudInitGuestInfoCustSpec E cloudInitMetadata config updateArgs of
                          Inl err \<Rightarrow> Inl err
                        | Inr configSpec \<Rightarrow> Inr (Some configSpec, None))))"

text \<open>The transport selector: the \<^verbatim>\<open>switch transport\<close> of \<^verbatim>\<open>customize\<close>.\<close>

definition selectTransport ::
  "('eth, 'np, 'nic, 'prop, 'vapp, 'tmpl) Collaborators \<Rightarrow> ('eth, 'nic, 'vapp) ResourceVM
    \<Rightarrow> VirtualMachine \<Rightarrow> 'prop VirtualMachineConfigInfo \<Rightarrow> VMUpdateArgs
    \<Rightarrow> error + ('vapp VirtualMachineConfigSpec option \<times> 'nic CustomizationSpec option)" where
  "selectTransport E resVM vm config updateArgs =
     (case Transport (VMMetadata updateArgs) of
        VirtualMachineMetadataCloudInitTransport \<Rightarrow>
          customizeCloudInit E resVM vm config updateArgs
      | VirtualMachineMetadataOvfEnvTransport \<Rightarrow>
          Inr (GetOvfEnvCustSpec E config updateArgs,
               Some (GetLinuxPrepCustSpec E (Name vm) updateArgs))
      | VirtualMachineMetadataExtraConfigTransport \<Rightarrow>
          Inr (GetExtraConfigCustSpec E config updateArgs,
               Some (GetLinuxPrepCustSpec E (Name vm) updateArgs))
      | VirtualMachineMetadataOtherTransport \<Rightarrow>
          Inr (None, Some (GetLinuxPrepCustSpec E (Name vm) updateArgs)))"

subsection \<open>Network status and templating\<close>

fun NicInfoToDevicesStatus_loop ::
  "('eth, 'np, 'nic, 'prop, 'vapp, 'tmpl) Collaborators \<Rightarrow> InterfaceInfo list
    \<Rightarrow> NetworkDeviceStatus list \<Rightarrow> NetworkDeviceStatus list" where
  "NicInfoToDevicesStatus_loop E [] networkDevicesStatus = networkDevicesStatus"
| "NicInfoToDevicesStatus_loop E (info # rest) networkDevicesStatus =
     (let ipConfig = IPConfiguration info;
          networkDevice =
            \<lparr>Gateway4 = Gateway ipConfig,
             IPAddresses = [ToCidrNotation E (IP ipConfig) (SubnetMask ipConfig)]\<rparr>
      in NicInfoToDevicesStatus_loop E rest (networkDevicesStatus @ [networkDevice]))"

definition NicInfoToDevicesStatus ::
  "('eth, 'np, 'nic, 'prop, 'vapp, 'tmpl) Collaborators \<Rightarrow> VMUpdateArgs
    \<Rightarrow> NetworkDeviceStatus list" where
  "NicInfoToDevicesStatus E updateArgs =
     NicInfoToDevicesStatus_loop E (NetIfList updateArgs) []"

definition backslash :: char where
  "backslash = CHR 0x5C"

definition normalizeStr :: "string \<Rightarrow> string" where
  "normalizeStr str =
     (if Contains str [backslash, CHR ''{''] \<or> Contains str [backslash, CHR ''}'']
      then ReplaceAll (ReplaceAll str [backslash, CHR ''{''] ''{'') [backslash, CHR ''}''] ''}''
      else str)"

definition renderTemplate ::
  "('eth, 'np, 'nic, 'prop, 'vapp, 'tmpl) Collaborators \<Rightarrow> VirtualMachineTemplate
    \<Rightarrow> string \<Rightarrow> string \<Rightarrow> string" where
  "renderTemplate E templateData name templateStr =
     (case template_Parse E name templateStr of
        Inl err \<Rightarrow> normalizeStr templateStr
      | Inr templ \<Rightarrow>
          (case template_Execute E templ templateData of
             Inl err \<Rightarrow> normalizeStr templateStr
           | Inr doc \<Rightarrow> normalizeStr doc))"

text \<open>\<^verbatim>\<open>TemplateVMMetadata\<close> writes every rendered value back into the mapping it ranges
  over; the result is \<^verbatim>\<open>updateArgs\<close> with the mapping as it is after the loop.\<close>

definition TemplateVMMetadata ::
  "('eth, 'np, 'nic, 'prop, 'vapp, 'tmpl) Collaborators \<Rightarrow> VirtualMachine \<Rightarrow> VMUpdateArgs
    \<Rightarrow> VMUpdateArgs" where
  "TemplateVMMetadata E vm updateArgs =
     (let networkDevicesStatus = NicInfoToDevicesStatus E updateArgs;
          networkStatus =
            \<lparr>Devices = networkDevicesStatus, Nameservers = DNSServers updateArgs\<rparr>;
          templateData = \<lparr>Net = networkStatus, VM = vm\<rparr>;
          data = Data (VMMetadata updateArgs);
          data' = fold (\<lambda>(key, val) d. map_store d key (renderTemplate E templateData key val))
                    data data
      in updateArgs\<lparr>VMMetadata := (VMMetadata updateArgs)\<lparr>Data := data'\<rparr>\<rparr>)"

subsection \<open>The pass\<close>

definition defaultConfigSpec :: "'vapp VirtualMachineConfigSpec" where
  "defaultConfigSpec =
     \<lparr>spec_ExtraConfig = [], spec_VAppConfig = None, VAppConfigRemoved = None\<rparr>"

text \<open>\<^verbatim>\<open>apiEquality.Semantic.DeepEqual\<close> compares two specs field by field and takes a
  nil slice and an empty one for equal; with both the empty list here, it is equality.\<close>

definition SemanticDeepEqual ::
  "'vapp VirtualMachineConfigSpec \<Rightarrow> 'vapp VirtualMachineConfigSpec \<Rightarrow> bool" where
  "SemanticDeepEqual a b = (a = b)"

text \<open>The reconfiguration step of \<^verbatim>\<open>customize\<close> (\<^verbatim>\<open>if configSpec != nil\<close>): the error
  of the step and the calls it made.\<close>

definition reconfigureStep ::
  "('eth, 'nic, 'vapp) ResourceVM \<Rightarrow> 'vapp VirtualMachineConfigSpec option
    \<Rightarrow> error option \<times> ('nic, 'vapp) RemoteCall list" where
  "reconfigureStep resVM configSpec =
     (case configSpec of
        None \<Rightarrow> (None, [])
      | Some spec \<Rightarrow>
          if \<not> SemanticDeepEqual spec defaultConfigSpec
          then (Reconfigure resVM spec, [ReconfigureCall spec])
          else (None, []))"

text \<open>The customization step of \<^verbatim>\<open>customize\<close> (\<^verbatim>\<open>if custSpec != nil\<close>) and the
  \<^verbatim>\<open>return nil\<close> after it.\<close>

definition customizeStep ::
  "('eth, 'np, 'nic, 'prop, 'vapp, 'tmpl) Collaborators \<Rightarrow> ('eth, 'nic, 'vapp) ResourceVM
    \<Rightarrow> VirtualMachine \<Rightarrow> 'prop VirtualMachineConfigInfo \<Rightarrow> 'nic CustomizationSpec option
    \<Rightarrow> Completion \<times> ('nic, 'vapp) RemoteCall list" where
  "customizeStep E resVM vm config custSpec =
     (case custSpec of
        None \<Rightarrow> (Returns None, [])
      | Some spec \<Rightarrow>
          if map_index (Annotations vm) (VSphereCustomizationBypassKey (constants E))
               = VSphereCustomizationBypassDisable (constants E)
          then (Returns None, [])
          else (case IsCustomizationPendingExtraConfig (constants E) (ExtraConfig config) of
                  None \<Rightarrow> (Panics, [])
                | Some True \<Rightarrow> (Returns None, [])
                | Some False \<Rightarrow>
                    (case Customize resVM spec of
                       Some err \<Rightarrow>
                         if \<not> isCustomizationPendingError err
                         then (Returns (Some err), [CustomizeCall spec])
                         else (Returns None, [CustomizeCall spec])
                     | None \<Rightarrow> (Returns None, [CustomizeCall spec]))))"

text \<open>The templating step of \<^verbatim>\<open>customize\<close>, behind the feature switch: the
  arguments as the rest of the pass reads them.\<close>

definition templateStep ::
  "('eth, 'np, 'nic, 'prop, 'vapp, 'tmpl) Collaborators \<Rightarrow> VirtualMachine \<Rightarrow> VMUpdateArgs
    \<Rightarrow> VMUpdateArgs" where
  "templateStep E vm updateArgs =
     (if IsVMServicePublicCloudBYOIFSSEnabled E
      then TemplateVMMetadata E vm updateArgs else updateArgs)"

definition customize ::
  "('eth, 'np, 'nic, 'prop, 'vapp, 'tmpl) Collaborators \<Rightarrow> ('eth, 'nic, 'vapp) ResourceVM
    \<Rightarrow> VirtualMachine \<Rightarrow> 'prop VirtualMachineConfigInfo \<Rightarrow> VMUpdateArgs
    \<Rightarrow> ('nic, 'vapp) Pass" where
  "customize E resVM vm config updateArgs0 =
     (let updateArgs = templateStep E vm updateArgs0;
          data = Data (VMMetadata updateArgs)
      in case selectTransport E resVM vm config updateArgs of
           Inl err \<Rightarrow> \<lparr>completion = Returns (Some err), calls = [], stored = data\<rparr>
         | Inr (configSpec, custSpec) \<Rightarrow>
             (case reconfigureStep resVM configSpec of
                (Some err, cs) \<Rightarrow> \<lparr>completion = Returns (Some err), calls = cs, stored = data\<rparr>
              | (None, cs) \<Rightarrow>
                  (case customizeStep E resVM vm config custSpec of
                     (outcome, cs') \<Rightarrow>
                       \<lparr>completion = outcome, calls = cs @ cs', stored = data\<rparr>)))"

subsection \<open>Collaborators as the specification describes them\<close>

text \<open>Modelled from the spec: \<^verbatim>\<open>network.ToCidrNotation\<close>, which is not in the file.
  The specification gives the address in CIDR notation as \<^verbatim>\<open>ip/prefixlen\<close>, with the
  prefix length derived from the bit count of the subnet mask: the bits set in the
  dot-separated decimal octets of the mask are counted and printed in decimal after the
  address. The specification says nothing of a mask that is not four decimal octets.\<close>

fun splitDots :: "string \<Rightarrow> string list" where
  "splitDots [] = [[]]"
| "splitDots (c # cs) =
     (if c = CHR ''.'' then [] # splitDots cs
      else (case splitDots cs of [] \<Rightarrow> [[c]] | w # ws \<Rightarrow> (c # w) # ws))"

definition digitValue :: "char \<Rightarrow> nat" where
  "digitValue c =
     (let code = of_char c in if 48 \<le> code \<and> code \<le> (57::nat) then code - 48 else 0)"

definition parseOctet :: "string \<Rightarrow> nat" where
  "parseOctet s = fold (\<lambda>c n. 10 * n + digitValue c) s 0"

definition bitCount :: "nat \<Rightarrow> nat" where
  "bitCount n = sum_list (map (\<lambda>i. (n div 2 ^ i) mod 2) [0, 1, 2, 3, 4, 5, 6, 7])"

function showNat :: "nat \<Rightarrow> string" where
  "showNat n =
     (if n < 10 then [''0123456789'' ! n]
      else showNat (n div 10) @ [''0123456789'' ! (n mod 10)])"
  by pat_completeness auto
termination
  by (relation "measure id") auto

definition ToCidrNotation_spec :: "string \<Rightarrow> string \<Rightarrow> string" where
  "ToCidrNotation_spec ip subnetMask =
     ip @ ''/'' @
     showNat (sum_list (map (\<lambda>octet. bitCount (parseOctet octet)) (splitDots subnetMask)))"

text \<open>Modelled from the spec: \<^verbatim>\<open>MergeExtraConfig\<close>, which is not in the file. The
  specification: updates override matching keys; all other existing keys are retained
  unchanged.\<close>

definition MergeExtraConfig_spec ::
  "BaseOptionValue list \<Rightarrow> StringMap \<Rightarrow> BaseOptionValue list" where
  "MergeExtraConfig_spec existing updates =
     filter (\<lambda>opt. case opt of None \<Rightarrow> True
                     | Some optValue \<Rightarrow> Key optValue \<notin> fst ` set updates) existing
     @ map (\<lambda>(k, v). Some \<lparr>Key = k, Value = StringValue v\<rparr>) updates"

text \<open>Modelled from the spec: \<^verbatim>\<open>GetMergedvAppConfigSpec\<close>, which is not in the file,
  ``the analogous merge for vApp-config properties''. A property is its key here; the
  spec holds the metadata entries of the existing properties and is nil when there are
  none.\<close>

definition GetMergedvAppConfigSpec_spec :: "StringMap \<Rightarrow> string list \<Rightarrow> StringMap option" where
  "GetMergedvAppConfigSpec_spec metadata props =
     (let merged = filter (\<lambda>(k, v). k \<in> set props) metadata
      in if merged = [] then None else Some merged)"

text \<open>Modelled from the spec: the codec (\<^verbatim>\<open>EncodeGzipBase64\<close> and
  \<^verbatim>\<open>util.TryToDecodeBase64Gzip\<close>), which is not in the file. Of the codec the
  specification fixes two laws, that decoding an encoded text gives the text back and that
  decoding a text that is not validly encoded gives it back unchanged; the stand-in below
  marks an encoded text with a tag and obeys both.\<close>

definition encode_spec :: "string \<Rightarrow> error + string" where
  "encode_spec s = Inr (''gz+b64:'' @ s)"

definition decode_spec :: "string \<Rightarrow> error + string" where
  "decode_spec s = Inr (if prefix ''gz+b64:'' s then drop 7 s else s)"

subsection \<open>An example installation\<close>

text \<open>Concrete values at which the theorems are evaluated: constants, collaborators
  following the specification, a template engine that renders a text without an action
  to itself and refuses an action that is not closed, and a VM resource whose calls
  succeed.\<close>

definition exampleConstants :: Constants where
  "exampleConstants =
     \<lparr>GOSCPendingExtraConfigKey = ''tools.deployPkg.fileName'',
      CloudInitGuestInfoMetadata = ''guestinfo.metadata'',
      CloudInitGuestInfoMetadataEncoding = ''guestinfo.metadata.encoding'',
      CloudInitGuestInfoUserdata = ''guestinfo.userdata'',
      CloudInitGuestInfoUserdataEncoding = ''guestinfo.userdata.encoding'',
      ExtraConfigGuestInfoPrefix = ''guestinfo.'',
      CloudInitTypeAnnotation = ''vmoperator.vmware.com/cloudinit-type'',
      CloudInitTypeValueCloudInitPrep = ''cloudinitprep'',
      CloudInitTypeValueGuestInfo = ''guestinfo'',
      VSphereCustomizationBypassKey = ''vmoperator.vmware.com/vsphere-customization'',
      VSphereCustomizationBypassDisable = ''disable''\<rparr>"

definition exampleCollaborators ::
  "bool \<Rightarrow> (unit, unit, IPConfig, string, StringMap, string) Collaborators" where
  "exampleCollaborators templating =
     \<lparr>constants = exampleConstants,
      IsVMServicePublicCloudBYOIFSSEnabled = templating,
      EncodeGzipBase64 = encode_spec,
      TryToDecodeBase64Gzip = decode_spec,
      MergeExtraConfig = MergeExtraConfig_spec,
      GetMergedvAppConfigSpec = GetMergedvAppConfigSpec_spec,
      GetNetplan = (\<lambda>netIfList ethCards dnsServers. ()),
      GetInterfaceCustomizations = map IPConfiguration,
      ToCidrNotation = ToCidrNotation_spec,
      yaml_Marshal = (\<lambda>metadataObj. Inr (''instance-id: '' @ InstanceID metadataObj)),
      template_Parse =
        (\<lambda>name templateStr.
           if Contains templateStr ''{{'' \<and> \<not> Contains templateStr ''}}''
           then Inl (OtherError ''unclosed action'') else Inr templateStr),
      template_Execute = (\<lambda>templ templateData. Inr templ)\<rparr>"

definition exampleResVM ::
  "error option \<Rightarrow> error option \<Rightarrow> (unit, IPConfig, StringMap) ResourceVM" where
  "exampleResVM reconfigureAnswer customizeAnswer =
     \<lparr>GetNetworkDevices = Inr (),
      Reconfigure = (\<lambda>configSpec. reconfigureAnswer),
      Customize = (\<lambda>custSpec. customizeAnswer)\<rparr>"

definition exampleVM :: "StringMap \<Rightarrow> VirtualMachine" where
  "exampleVM annotations = \<lparr>UID = ''uid-1'', Name = ''vm-1'', Annotations = annotations\<rparr>"

definition exampleConfig :: "BaseOptionValue list \<Rightarrow> string VirtualMachineConfigInfo" where
  "exampleConfig extraConfig = \<lparr>ExtraConfig = extraConfig, VAppConfig = None\<rparr>"

definition exampleArgs :: "VirtualMachineMetadataTransport \<Rightarrow> StringMap \<Rightarrow> VMUpdateArgs" where
  "exampleArgs transport metadata =
     \<lparr>VMMetadata = \<lparr>Data = metadata, Transport = transport\<rparr>,
      NetIfList =
        [\<lparr>IPConfiguration =
            \<lparr>IP = ''10.0.0.5'', SubnetMask = ''255.255.255.0'', Gateway = ''10.0.0.1''\<rparr>\<rparr>],
      DNSServers = [''8.8.8.8'']\<rparr>"

definition pendingMarker :: BaseOptionValue where
  "pendingMarker = Some \<lparr>Key = ''tools.deployPkg.fileName'', Value = StringValue ''imc.cab''\<rparr>"

definition helloEscaped :: string where
  "helloEscaped = ''hello '' @ backslash # ''{world'' @ backslash # ''}''"

section \<open>Properties\<close>

subsection \<open>Evaluation at the example installation\<close>

text \<open>The definitions that evaluate a pass at the example installation.\<close>

lemmas example_defs =
  exampleCollaborators_def exampleConstants_def exampleResVM_def exampleVM_def
  exampleConfig_def exampleArgs_def pendingMarker_def MergeExtraConfig_spec_def
  GetMergedvAppConfigSpec_spec_def encode_spec_def decode_spec_def

lemmas pass_defs =
  customize_def templateStep_def selectTransport_def reconfigureStep_def customizeStep_def
  customizeCloudInit_def GetCloudInitMetadata_def GetCloudInitPrepCustSpec_def
  GetCloudInitGuestInfoCustSpec_def GuestInfoExtraConfig_def GetExtraConfigCustSpec_def
  PrefixedExtraConfig_def GetOvfEnvCustSpec_def GetLinuxPrepCustSpec_def
  SemanticDeepEqual_def defaultConfigSpec_def map_index_def map_store_def HasPrefix_def

subsection \<open>Templating leaves the rest of the arguments alone\<close>

lemma templateStep_fields:
  "Transport (VMMetadata (templateStep E vm updateArgs)) = Transport (VMMetadata updateArgs)"
  "NetIfList (templateStep E vm updateArgs) = NetIfList updateArgs"
  "DNSServers (templateStep E vm updateArgs) = DNSServers updateArgs"
  by (simp_all add: templateStep_def TemplateVMMetadata_def Let_def)

lemma GetLinuxPrepCustSpec_templateStep:
  "GetLinuxPrepCustSpec E vmName (templateStep E vm updateArgs)
     = GetLinuxPrepCustSpec E vmName updateArgs"
  by (simp add: GetLinuxPrepCustSpec_def templateStep_fields)

subsection \<open>The transport selector\<close>

lemma customizeCloudInit_one:
  "customizeCloudInit E resVM vm config updateArgs = Inr (configSpec, custSpec)
     \<Longrightarrow> (configSpec = None) \<noteq> (custSpec = None)"
  by (auto simp: customizeCloudInit_def Let_def split: sum.splits if_splits)

text \<open>
  Claim C1, as amended. A run of the transport selector that returns no error returns a
  pair of which at least one member is non-nil. For the CloudInit transport and for an
  unset or other transport exactly one of the two is non-nil. For OvfEnv and ExtraConfig
  (every transport but CloudInit) the identity-customization-spec is always non-nil, and
  the configuration-spec may be non-nil beside it. Only the CloudInit transport can
  return an error.
\<close>

theorem C1_selector_specs:
  "case selectTransport E resVM vm config updateArgs of
     Inl err \<Rightarrow> Transport (VMMetadata updateArgs) = VirtualMachineMetadataCloudInitTransport
   | Inr (configSpec, custSpec) \<Rightarrow>
       (configSpec \<noteq> None \<or> custSpec \<noteq> None)
       \<and> (Transport (VMMetadata updateArgs) = VirtualMachineMetadataCloudInitTransport
            \<or> Transport (VMMetadata updateArgs) = VirtualMachineMetadataOtherTransport
          \<longrightarrow> (configSpec = None) \<noteq> (custSpec = None))
       \<and> (Transport (VMMetadata updateArgs) \<noteq> VirtualMachineMetadataCloudInitTransport
          \<longrightarrow> custSpec \<noteq> None)"
proof (cases "Transport (VMMetadata updateArgs)")
  case VirtualMachineMetadataCloudInitTransport
  then show ?thesis
    using customizeCloudInit_one [of E resVM vm config updateArgs]
    by (auto simp: selectTransport_def split: sum.splits)
qed (simp_all add: selectTransport_def)

text \<open>The theorem at a VM with no transport declared: only the Linux-prep
  identity-customization-spec is returned.\<close>

theorem C1_selector_specs_witness:
  "Transport (VMMetadata (exampleArgs VirtualMachineMetadataOtherTransport []))
     = VirtualMachineMetadataOtherTransport
   \<and> selectTransport (exampleCollaborators False) (exampleResVM None None) (exampleVM [])
        (exampleConfig []) (exampleArgs VirtualMachineMetadataOtherTransport [])
     = Inr (None,
            Some \<lparr>Identity = CustomizationLinuxPrep ''vm-1'' (Some True),
                  DnsServerList = [''8.8.8.8''],
                  NicSettingMap =
                    [\<lparr>IP = ''10.0.0.5'', SubnetMask = ''255.255.255.0'',
                      Gateway = ''10.0.0.1''\<rparr>]\<rparr>)"
  using C1_selector_specs [where E = "exampleCollaborators False"
      and resVM = "exampleResVM None None" and vm = "exampleVM []" and config = "exampleConfig []"
      and updateArgs = "exampleArgs VirtualMachineMetadataOtherTransport []"]
  by (simp add: selectTransport_def exampleArgs_def GetLinuxPrepCustSpec_def
      exampleCollaborators_def exampleVM_def)

text \<open>Claim C1 as stated fails: with the ExtraConfig transport and a metadata key that
  carries the guest-info prefix, the selector returns a non-nil configuration-spec and a
  non-nil identity-customization-spec from the same branch.\<close>

theorem C1_both_specs_counterexample:
  "selectTransport (exampleCollaborators False) (exampleResVM None None) (exampleVM [])
     (exampleConfig [])
     (exampleArgs VirtualMachineMetadataExtraConfigTransport [(''guestinfo.foo'', ''bar'')])
   = Inr (Some \<lparr>spec_ExtraConfig =
                  [Some \<lparr>Key = ''guestinfo.foo'', Value = StringValue ''bar''\<rparr>],
                spec_VAppConfig = None, VAppConfigRemoved = None\<rparr>,
          Some \<lparr>Identity = CustomizationLinuxPrep ''vm-1'' (Some True),
                DnsServerList = [''8.8.8.8''],
                NicSettingMap =
                  [\<lparr>IP = ''10.0.0.5'', SubnetMask = ''255.255.255.0'',
                    Gateway = ''10.0.0.1''\<rparr>]\<rparr>)"
  by (simp add: selectTransport_def exampleArgs_def GetLinuxPrepCustSpec_def
      exampleCollaborators_def exampleVM_def exampleConfig_def GetExtraConfigCustSpec_def
      PrefixedExtraConfig_def HasPrefix_def map_store_def exampleConstants_def
      MergeExtraConfig_spec_def)

subsection \<open>Templating and escape sequences\<close>

lemma ReplaceAll_absent: "\<not> Contains s old \<Longrightarrow> ReplaceAll s old new = s"
  by (induction s) auto

lemma normalizeStr_unescape:
  "normalizeStr str
     = ReplaceAll (ReplaceAll str [backslash, CHR ''{''] ''{'') [backslash, CHR ''}''] ''}''"
  by (simp add: normalizeStr_def ReplaceAll_absent)

lemma update_middle:
  "k \<notin> fst ` set xs \<Longrightarrow> AList.update k v (xs @ (k, w) # ys) = xs @ (k, v) # ys"
  by (induction xs) auto

lemma fold_store_each:
  "distinct (map fst (visited @ rest))
   \<Longrightarrow> fold (\<lambda>(key, val) d. map_store d key (f key val)) rest
         (map (\<lambda>(key, val). (key, f key val)) visited @ rest)
       = map (\<lambda>(key, val). (key, f key val)) (visited @ rest)"
proof (induction rest arbitrary: visited)
  case Nil
  then show ?case by simp
next
  case (Cons p rest)
  obtain k v where p: "p = (k, v)" by (cases p)
  have k: "k \<notin> fst ` set (map (\<lambda>(key, val). (key, f key val)) visited)"
    using Cons.prems by (force simp: p)
  have "fold (\<lambda>(key, val) d. map_store d key (f key val)) (p # rest)
          (map (\<lambda>(key, val). (key, f key val)) visited @ p # rest)
        = fold (\<lambda>(key, val) d. map_store d key (f key val)) rest
          (map (\<lambda>(key, val). (key, f key val)) (visited @ [p]) @ rest)"
    using update_middle [OF k] by (simp add: p map_store_def)
  also have "\<dots> = map (\<lambda>(key, val). (key, f key val)) ((visited @ [p]) @ rest)"
    using Cons.prems by (intro Cons.IH) simp
  finally show ?case by simp
qed

lemma TemplateVMMetadata_Data:
  assumes "distinct (map fst (Data (VMMetadata updateArgs)))"
  shows "Data (VMMetadata (TemplateVMMetadata E vm updateArgs))
    = map (\<lambda>(key, val).
             (key, renderTemplate E
                     \<lparr>Net = \<lparr>Devices = NicInfoToDevicesStatus E updateArgs,
                              Nameservers = DNSServers updateArgs\<rparr>,
                       VM = vm\<rparr> key val))
        (Data (VMMetadata updateArgs))"
  using fold_store_each [of "[]" "Data (VMMetadata updateArgs)"] assms
  by (simp add: TemplateVMMetadata_def Let_def)

lemma stored_customize:
  "stored (customize E resVM vm config updateArgs)
     = Data (VMMetadata (templateStep E vm updateArgs))"
  by (simp add: customize_def Let_def split: sum.splits prod.splits option.splits)

lemma map_index_map:
  "distinct (map fst m) \<Longrightarrow> (key, val) \<in> set m
   \<Longrightarrow> map_index (map (\<lambda>(k, v). (k, f k v)) m) key = f key val"
proof -
  assume d: "distinct (map fst m)" and m: "(key, val) \<in> set m"
  have "map_of (map (\<lambda>(k, v). (k, f k v)) m) key = Some (f key val)"
    using d m by (induction m) (auto simp: rev_image_eqI)
  then show ?thesis by (simp add: map_index_def)
qed

text \<open>
  Claim C2, as amended. When templating is enabled (the feature switch is on), every
  metadata value is stored un-escaped: each \<^verbatim>\<open>\{\<close> replaced by \<^verbatim>\<open>{\<close> and then
  each \<^verbatim>\<open>\}\<close> by \<^verbatim>\<open>}\<close>, in the rendered text when the template parses and
  executes, and in the original value on a parse error or an execution error; un-escaping
  \<^verbatim>\<open>hello \{world\}\<close> gives \<^verbatim>\<open>hello {world}\<close>. When templating is disabled the
  value is stored as it was given: its escape sequences are not replaced. (The metadata
  mapping, a Go map, has distinct keys.)
\<close>

theorem C2_unescape_when_templating:
  assumes "distinct (map fst (Data (VMMetadata updateArgs)))"
    and "(key, val) \<in> set (Data (VMMetadata updateArgs))"
  shows "map_index (stored (customize E resVM vm config updateArgs)) key =
     (if IsVMServicePublicCloudBYOIFSSEnabled E
      then ReplaceAll
             (ReplaceAll
                (case template_Parse E key val of
                   Inl err \<Rightarrow> val
                 | Inr templ \<Rightarrow>
                     (case template_Execute E templ
                             \<lparr>Net = \<lparr>Devices = NicInfoToDevicesStatus E updateArgs,
                                      Nameservers = DNSServers updateArgs\<rparr>,
                               VM = vm\<rparr> of
                        Inl err \<Rightarrow> val
                      | Inr doc \<Rightarrow> doc))
                [backslash, CHR ''{''] ''{'')
             [backslash, CHR ''}''] ''}''
      else val)
   \<and> ReplaceAll (ReplaceAll helloEscaped [backslash, CHR ''{''] ''{'') [backslash, CHR ''}''] ''}''
       = ''hello {world}''"
proof -
  have hello: "ReplaceAll (ReplaceAll helloEscaped [backslash, CHR ''{''] ''{'')
      [backslash, CHR ''}''] ''}'' = ''hello {world}''"
    by (simp add: helloEscaped_def backslash_def)
  show ?thesis
  proof (cases "IsVMServicePublicCloudBYOIFSSEnabled E")
    case True
    then show ?thesis
      using assms hello
      by (simp add: stored_customize templateStep_def TemplateVMMetadata_Data map_index_map
          renderTemplate_def normalizeStr_unescape split: sum.splits)
  next
    case False
    have "map_of (Data (VMMetadata updateArgs)) key = Some val"
      using assms by simp
    then show ?thesis
      using False hello by (simp add: stored_customize templateStep_def map_index_def)
  qed
qed

text \<open>The theorem at the value \<^verbatim>\<open>hello \{world\}\<close> with templating enabled.\<close>

theorem C2_unescape_when_templating_witness:
  "distinct (map fst (Data (VMMetadata (exampleArgs VirtualMachineMetadataOtherTransport
       [(''k'', helloEscaped)]))))
   \<and> (''k'', helloEscaped) \<in> set (Data (VMMetadata
         (exampleArgs VirtualMachineMetadataOtherTransport [(''k'', helloEscaped)])))
   \<and> map_index (stored (customize (exampleCollaborators True) (exampleResVM None None)
         (exampleVM []) (exampleConfig [])
         (exampleArgs VirtualMachineMetadataOtherTransport [(''k'', helloEscaped)]))) ''k''
       = ''hello {world}''"
  using C2_unescape_when_templating [where E = "exampleCollaborators True"
      and resVM = "exampleResVM None None" and vm = "exampleVM []" and config = "exampleConfig []"
      and updateArgs = "exampleArgs VirtualMachineMetadataOtherTransport [(''k'', helloEscaped)]"
      and key = "''k''" and val = helloEscaped]
  by (simp add: exampleArgs_def exampleCollaborators_def helloEscaped_def backslash_def)

text \<open>Claim C2 as stated fails: with templating disabled, the value
  \<^verbatim>\<open>hello \{world\}\<close> is stored unchanged after the pass.\<close>

theorem C2_templating_disabled_counterexample:
  "map_index (stored (customize (exampleCollaborators False) (exampleResVM None None)
      (exampleVM []) (exampleConfig [])
      (exampleArgs VirtualMachineMetadataOtherTransport [(''k'', helloEscaped)]))) ''k''
     = helloEscaped
   \<and> helloEscaped \<noteq> ''hello {world}''"
  by (simp add: stored_customize templateStep_def exampleCollaborators_def exampleArgs_def
      map_index_def helloEscaped_def backslash_def)

subsection \<open>The customization step\<close>

lemma isCustomizationPendingError_iff:
  "isCustomizationPendingError err \<longleftrightarrow> err = TaskError CustomizationPending"
  by (cases err rule: isCustomizationPendingError.cases) simp_all

lemma IsCustomizationPendingExtraConfig_first:
  assumes "\<forall>optValue. Some optValue \<in> set before \<longrightarrow> Key optValue \<noteq> GOSCPendingExtraConfigKey C"
  shows "IsCustomizationPendingExtraConfig C
           (before @ Some \<lparr>Key = GOSCPendingExtraConfigKey C, Value = StringValue v\<rparr> # after)
         = Some (v \<noteq> [])"
  using assms by (induction before) (auto split: option.splits)

lemma reconfigureStep_calls:
  "reconfigureStep resVM configSpec = (err, cs)
   \<Longrightarrow> (\<forall>spec. CustomizeCall spec \<notin> set cs)
       \<and> (err \<noteq> None \<longrightarrow> (\<exists>spec. cs = [ReconfigureCall spec] \<and> Reconfigure resVM spec = err))"
  by (auto simp: reconfigureStep_def split: option.splits if_splits)

lemma customizeStep_skip:
  assumes "map_index (Annotations vm) (VSphereCustomizationBypassKey (constants E))
             = VSphereCustomizationBypassDisable (constants E)
           \<or> IsCustomizationPendingExtraConfig (constants E) (ExtraConfig config) = Some True"
  shows "customizeStep E resVM vm config custSpec = (Returns None, [])"
  using assms by (auto simp: customizeStep_def split: option.splits)

lemma customize_skip:
  assumes "map_index (Annotations vm) (VSphereCustomizationBypassKey (constants E))
             = VSphereCustomizationBypassDisable (constants E)
           \<or> IsCustomizationPendingExtraConfig (constants E) (ExtraConfig config) = Some True"
  shows "(\<forall>spec. CustomizeCall spec \<notin> set (calls (customize E resVM vm config updateArgs)))
    \<and> (completion (customize E resVM vm config updateArgs) = Returns None
       \<or> (\<exists>err. completion (customize E resVM vm config updateArgs) = Returns (Some err)
            \<and> (selectTransport E resVM vm config (templateStep E vm updateArgs) = Inl err
               \<or> (\<exists>spec. ReconfigureCall spec
                            \<in> set (calls (customize E resVM vm config updateArgs))
                     \<and> Reconfigure resVM spec = Some err))))"
proof (cases "selectTransport E resVM vm config (templateStep E vm updateArgs)")
  case (Inl err)
  then show ?thesis by (simp add: customize_def Let_def)
next
  case (Inr specs)
  obtain configSpec custSpec where specs: "specs = (configSpec, custSpec)" by (cases specs)
  obtain err cs where r: "reconfigureStep resVM configSpec = (err, cs)"
    by (cases "reconfigureStep resVM configSpec")
  note rc = reconfigureStep_calls [OF r]
  show ?thesis
  proof (cases err)
    case None
    then show ?thesis
      using Inr specs r rc customizeStep_skip [OF assms, of resVM custSpec]
      by (simp add: customize_def Let_def)
  next
    case (Some e)
    then show ?thesis
      using Inr specs r rc by (auto simp: customize_def Let_def)
  qed
qed

lemma reconfigureStep_cases:
  "reconfigureStep resVM configSpec = (None, [])
   \<or> (\<exists>spec. reconfigureStep resVM configSpec
                = (Reconfigure resVM spec, [ReconfigureCall spec]))"
  by (simp add: reconfigureStep_def split: option.splits)

lemma customize_skip_completion:
  assumes "map_index (Annotations vm) (VSphereCustomizationBypassKey (constants E))
             = VSphereCustomizationBypassDisable (constants E)
           \<or> IsCustomizationPendingExtraConfig (constants E) (ExtraConfig config) = Some True"
  shows "(\<forall>err. selectTransport E resVM vm config (templateStep E vm updateArgs) = Inl err
            \<longrightarrow> completion (customize E resVM vm config updateArgs) = Returns (Some err))
    \<and> (\<forall>spec err. ReconfigureCall spec \<in> set (calls (customize E resVM vm config updateArgs))
            \<longrightarrow> Reconfigure resVM spec = Some err
            \<longrightarrow> completion (customize E resVM vm config updateArgs) = Returns (Some err))
    \<and> (\<forall>specs. selectTransport E resVM vm config (templateStep E vm updateArgs) = Inr specs
            \<longrightarrow> (\<forall>spec. ReconfigureCall spec
                          \<in> set (calls (customize E resVM vm config updateArgs))
                        \<longrightarrow> Reconfigure resVM spec = None)
            \<longrightarrow> completion (customize E resVM vm config updateArgs) = Returns None)"
proof (cases "selectTransport E resVM vm config (templateStep E vm updateArgs)")
  case (Inl err)
  then show ?thesis by (simp add: customize_def Let_def)
next
  case (Inr specs)
  obtain configSpec custSpec where specs: "specs = (configSpec, custSpec)" by (cases specs)
  note skip = customizeStep_skip [OF assms, of resVM custSpec]
  from reconfigureStep_cases [of resVM configSpec] show ?thesis
  proof
    assume "reconfigureStep resVM configSpec = (None, [])"
    then show ?thesis
      using Inr specs skip by (simp add: customize_def Let_def)
  next
    assume "\<exists>spec. reconfigureStep resVM configSpec
                = (Reconfigure resVM spec, [ReconfigureCall spec])"
    then obtain spec where r: "reconfigureStep resVM configSpec
                = (Reconfigure resVM spec, [ReconfigureCall spec])" ..
    show ?thesis
      using Inr specs skip r
      by (cases "Reconfigure resVM spec") (simp_all add: customize_def Let_def)
  qed
qed

lemma customize_CustomizeCall:
  assumes "CustomizeCall spec \<in> set (calls (customize E resVM vm config updateArgs))"
  shows "completion (customize E resVM vm config updateArgs)
    = (case Customize resVM spec of
         None \<Rightarrow> Returns None
       | Some err \<Rightarrow> if isCustomizationPendingError err then Returns None
                      else Returns (Some err))"
proof (cases "selectTransport E resVM vm config (templateStep E vm updateArgs)")
  case (Inl err)
  then show ?thesis using assms by (simp add: customize_def Let_def)
next
  case (Inr specs)
  obtain configSpec custSpec where specs: "specs = (configSpec, custSpec)" by (cases specs)
  obtain err cs where r: "reconfigureStep resVM configSpec = (err, cs)"
    by (cases "reconfigureStep resVM configSpec")
  note rc = reconfigureStep_calls [OF r]
  show ?thesis
  proof (cases err)
    case None
    then show ?thesis
      using Inr specs r rc assms
      by (auto simp: customize_def Let_def customizeStep_def
          split: option.splits if_splits bool.splits)
  next
    case (Some e)
    then show ?thesis
      using Inr specs r rc assms by (auto simp: customize_def Let_def)
  qed
qed

text \<open>
  Claim C3, as amended. When the first entry of the live extra-configuration under the
  pending-customization key holds a non-empty string (with unique keys: when the entry
  under that key does), the pass does not invoke the Customize call, whatever the transport
  and whether or not a custSpec was produced. What the pass returns is then decided by
  the earlier steps alone: when the transport selector fails, the pass returns the error
  of the selector; when the Reconfigure call it made fails, the pass returns the error of
  that call; and when the selector returns specs and no Reconfigure call of the pass
  fails, the pass returns a nil error.
\<close>

theorem C3_pending_marker_no_customize:
  assumes "ExtraConfig config
      = before @ Some \<lparr>Key = GOSCPendingExtraConfigKey (constants E), Value = StringValue v\<rparr>
          # after"
    and "v \<noteq> []"
    and "\<forall>optValue. Some optValue \<in> set before
           \<longrightarrow> Key optValue \<noteq> GOSCPendingExtraConfigKey (constants E)"
  shows "(\<forall>spec. CustomizeCall spec \<notin> set (calls (customize E resVM vm config updateArgs)))
    \<and> (completion (customize E resVM vm config updateArgs) = Returns None
       \<or> (\<exists>err. completion (customize E resVM vm config updateArgs) = Returns (Some err)
            \<and> (selectTransport E resVM vm config (templateStep E vm updateArgs) = Inl err
               \<or> (\<exists>spec. ReconfigureCall spec
                            \<in> set (calls (customize E resVM vm config updateArgs))
                     \<and> Reconfigure resVM spec = Some err))))
    \<and> (\<forall>err. selectTransport E resVM vm config (templateStep E vm updateArgs) = Inl err
            \<longrightarrow> completion (customize E resVM vm config updateArgs) = Returns (Some err))
    \<and> (\<forall>spec err. ReconfigureCall spec \<in> set (calls (customize E resVM vm config updateArgs))
            \<longrightarrow> Reconfigure resVM spec = Some err
            \<longrightarrow> completion (customize E resVM vm config updateArgs) = Returns (Some err))
    \<and> (\<forall>specs. selectTransport E resVM vm config (templateStep E vm updateArgs) = Inr specs
            \<longrightarrow> (\<forall>spec. ReconfigureCall spec
                          \<in> set (calls (customize E resVM vm config updateArgs))
                        \<longrightarrow> Reconfigure resVM spec = None)
            \<longrightarrow> completion (customize E resVM vm config updateArgs) = Returns None)"
proof -
  have "IsCustomizationPendingExtraConfig (constants E) (ExtraConfig config) = Some True"
    using assms IsCustomizationPendingExtraConfig_first [of before "constants E" v after]
    by simp
  then have pending: "map_index (Annotations vm) (VSphereCustomizationBypassKey (constants E))
             = VSphereCustomizationBypassDisable (constants E)
           \<or> IsCustomizationPendingExtraConfig (constants E) (ExtraConfig config) = Some True"
    by simp
  show ?thesis
    using customize_skip [OF pending, of resVM updateArgs]
      customize_skip_completion [OF pending, of resVM updateArgs]
    by (intro conjI) blast+
qed

text \<open>The theorem at a VM with the pending marker set, in three passes: with no
  transport declared a custSpec is produced, nothing is called and the pass returns nil;
  with the ExtraConfig transport and a Reconfigure call that fails the pass returns the
  error of the call; with the CloudInit transport and network devices that cannot be read
  the pass returns the error of the selector.\<close>

theorem C3_pending_marker_no_customize_witness:
  "ExtraConfig (exampleConfig [pendingMarker])
     = [] @ Some \<lparr>Key = GOSCPendingExtraConfigKey (constants (exampleCollaborators False)),
                   Value = StringValue ''imc.cab''\<rparr> # []
   \<and> ''imc.cab'' \<noteq> []
   \<and> selectTransport (exampleCollaborators False) (exampleResVM None None) (exampleVM [])
        (exampleConfig [pendingMarker]) (exampleArgs VirtualMachineMetadataOtherTransport [])
     = Inr (None, Some (GetLinuxPrepCustSpec (exampleCollaborators False) ''vm-1''
                          (exampleArgs VirtualMachineMetadataOtherTransport [])))
   \<and> calls (customize (exampleCollaborators False) (exampleResVM None None) (exampleVM [])
        (exampleConfig [pendingMarker]) (exampleArgs VirtualMachineMetadataOtherTransport []))
     = []
   \<and> completion (customize (exampleCollaborators False) (exampleResVM None None) (exampleVM [])
        (exampleConfig [pendingMarker]) (exampleArgs VirtualMachineMetadataOtherTransport []))
     = Returns None
   \<and> map is_ReconfigureCall
        (calls (customize (exampleCollaborators False)
           (exampleResVM (Some (OtherError ''reconfigure refused'')) None) (exampleVM [])
           (exampleConfig [pendingMarker])
           (exampleArgs VirtualMachineMetadataExtraConfigTransport
              [(''guestinfo.foo'', ''bar'')])))
     = [True]
   \<and> completion (customize (exampleCollaborators False)
        (exampleResVM (Some (OtherError ''reconfigure refused'')) None) (exampleVM [])
        (exampleConfig [pendingMarker])
        (exampleArgs VirtualMachineMetadataExtraConfigTransport [(''guestinfo.foo'', ''bar'')]))
     = Returns (Some (OtherError ''reconfigure refused''))
   \<and> selectTransport (exampleCollaborators False)
        ((exampleResVM None None)\<lparr>GetNetworkDevices := Inl (OtherError ''no devices'')\<rparr>)
        (exampleVM []) (exampleConfig [pendingMarker])
        (templateStep (exampleCollaborators False) (exampleVM [])
           (exampleArgs VirtualMachineMetadataCloudInitTransport []))
     = Inl (OtherError ''no devices'')
   \<and> completion (customize (exampleCollaborators False)
        ((exampleResVM None None)\<lparr>GetNetworkDevices := Inl (OtherError ''no devices'')\<rparr>)
        (exampleVM []) (exampleConfig [pendingMarker])
        (exampleArgs VirtualMachineMetadataCloudInitTransport []))
     = Returns (Some (OtherError ''no devices''))"
  using C3_pending_marker_no_customize [where E = "exampleCollaborators False"
      and resVM = "exampleResVM None None" and vm = "exampleVM []"
      and config = "exampleConfig [pendingMarker]"
      and updateArgs = "exampleArgs VirtualMachineMetadataOtherTransport []"
      and before = "[]" and v = "''imc.cab''" and after = "[]"]
    C3_pending_marker_no_customize [where E = "exampleCollaborators False"
      and resVM = "exampleResVM (Some (OtherError ''reconfigure refused'')) None"
      and vm = "exampleVM []" and config = "exampleConfig [pendingMarker]"
      and updateArgs = "exampleArgs VirtualMachineMetadataExtraConfigTransport
         [(''guestinfo.foo'', ''bar'')]"
      and before = "[]" and v = "''imc.cab''" and after = "[]"]
    C3_pending_marker_no_customize [where E = "exampleCollaborators False"
      and resVM = "(exampleResVM None None)
         \<lparr>GetNetworkDevices := Inl (OtherError ''no devices'')\<rparr>"
      and vm = "exampleVM []" and config = "exampleConfig [pendingMarker]"
      and updateArgs = "exampleArgs VirtualMachineMetadataCloudInitTransport []"
      and before = "[]" and v = "''imc.cab''" and after = "[]"]
  by (simp add: example_defs pass_defs)

text \<open>Claim C3 as stated fails: with the pending marker set, the ExtraConfig transport
  and a Reconfigure call that fails, the pass returns the error of that call and not
  nil.\<close>

theorem C3_reconfigure_failure_counterexample:
  "IsCustomizationPendingExtraConfig exampleConstants
     (ExtraConfig (exampleConfig [pendingMarker])) = Some True
   \<and> completion (customize (exampleCollaborators False)
        (exampleResVM (Some (OtherError ''reconfigure failed'')) None) (exampleVM [])
        (exampleConfig [pendingMarker])
        (exampleArgs VirtualMachineMetadataExtraConfigTransport [(''guestinfo.foo'', ''bar'')]))
     = Returns (Some (OtherError ''reconfigure failed''))"
  by (simp add: example_defs pass_defs)

text \<open>
  Claim C4. When the pass submits the customization request and the Customize call fails,
  the pass returns a nil error if and only if the failure is the task error whose fault is
  CustomizationPending; every other failure of Customize is the error the pass returns.
\<close>

theorem C4_customize_failure:
  assumes "CustomizeCall spec \<in> set (calls (customize E resVM vm config updateArgs))"
    and "Customize resVM spec = Some err"
  shows "(completion (customize E resVM vm config updateArgs) = Returns None
            \<longleftrightarrow> err = TaskError CustomizationPending)
    \<and> (err \<noteq> TaskError CustomizationPending
          \<longrightarrow> completion (customize E resVM vm config updateArgs) = Returns (Some err))"
  using customize_CustomizeCall [OF assms(1)] assms(2)
  by (simp add: isCustomizationPendingError_iff)

text \<open>The theorem at a pass whose Customize call answers with the pending fault.\<close>

theorem C4_customize_failure_witness:
  "CustomizeCall (GetLinuxPrepCustSpec (exampleCollaborators False) ''vm-1''
       (exampleArgs VirtualMachineMetadataOtherTransport []))
     \<in> set (calls (customize (exampleCollaborators False)
          (exampleResVM None (Some (TaskError CustomizationPending))) (exampleVM [])
          (exampleConfig []) (exampleArgs VirtualMachineMetadataOtherTransport [])))
   \<and> Customize (exampleResVM None (Some (TaskError CustomizationPending)))
        (GetLinuxPrepCustSpec (exampleCollaborators False) ''vm-1''
          (exampleArgs VirtualMachineMetadataOtherTransport []))
     = Some (TaskError CustomizationPending)
   \<and> completion (customize (exampleCollaborators False)
          (exampleResVM None (Some (TaskError CustomizationPending))) (exampleVM [])
          (exampleConfig []) (exampleArgs VirtualMachineMetadataOtherTransport []))
     = Returns None"
  using C4_customize_failure [where E = "exampleCollaborators False"
      and resVM = "exampleResVM None (Some (TaskError CustomizationPending))"
      and vm = "exampleVM []" and config = "exampleConfig []"
      and updateArgs = "exampleArgs VirtualMachineMetadataOtherTransport []"
      and spec = "GetLinuxPrepCustSpec (exampleCollaborators False) ''vm-1''
          (exampleArgs VirtualMachineMetadataOtherTransport [])"
      and err = "TaskError CustomizationPending"]
  by (simp add: example_defs pass_defs)

text \<open>
  Claim C8, as amended. When the annotations of the VM carry the customization-bypass key
  with the disable value, the pass does not invoke the Customize call, whatever the
  transport and also when a custSpec was produced. What the pass returns is then decided
  by the earlier steps alone: when the transport selector fails, the pass returns the
  error of the selector; when the Reconfigure call it made fails, the pass returns the
  error of that call; and when the selector returns specs and no Reconfigure call of the
  pass fails, the pass returns a nil error.
\<close>

theorem C8_bypass_no_customize:
  assumes "map_index (Annotations vm) (VSphereCustomizationBypassKey (constants E))
             = VSphereCustomizationBypassDisable (constants E)"
  shows "(\<forall>spec. CustomizeCall spec \<notin> set (calls (customize E resVM vm config updateArgs)))
    \<and> (completion (customize E resVM vm config updateArgs) = Returns None
       \<or> (\<exists>err. completion (customize E resVM vm config updateArgs) = Returns (Some err)
            \<and> (selectTransport E resVM vm config (templateStep E vm updateArgs) = Inl err
               \<or> (\<exists>spec. ReconfigureCall spec
                            \<in> set (calls (customize E resVM vm config updateArgs))
                     \<and> Reconfigure resVM spec = Some err))))
    \<and> (\<forall>err. selectTransport E resVM vm config (templateStep E vm updateArgs) = Inl err
            \<longrightarrow> completion (customize E resVM vm config updateArgs) = Returns (Some err))
    \<and> (\<forall>spec err. ReconfigureCall spec \<in> set (calls (customize E resVM vm config updateArgs))
            \<longrightarrow> Reconfigure resVM spec = Some err
            \<longrightarrow> completion (customize E resVM vm config updateArgs) = Returns (Some err))
    \<and> (\<forall>specs. selectTransport E resVM vm config (templateStep E vm updateArgs) = Inr specs
            \<longrightarrow> (\<forall>spec. ReconfigureCall spec
                          \<in> set (calls (customize E resVM vm config updateArgs))
                        \<longrightarrow> Reconfigure resVM spec = None)
            \<longrightarrow> completion (customize E resVM vm config updateArgs) = Returns None)"
proof -
  have bypass: "map_index (Annotations vm) (VSphereCustomizationBypassKey (constants E))
             = VSphereCustomizationBypassDisable (constants E)
           \<or> IsCustomizationPendingExtraConfig (constants E) (ExtraConfig config) = Some True"
    using assms by simp
  show ?thesis
    using customize_skip [OF bypass, of resVM updateArgs]
      customize_skip_completion [OF bypass, of resVM updateArgs]
    by (intro conjI) blast+
qed

text \<open>The theorem at a VM with the bypass annotation, in three passes: with no
  transport declared a custSpec is produced, nothing is called and the pass returns nil;
  with the OvfEnv transport over a vApp property and a Reconfigure call that fails the
  pass returns the error of the call; with the CloudInit transport and network devices
  that cannot be read the pass returns the error of the selector.\<close>

theorem C8_bypass_no_customize_witness:
  "map_index (Annotations (exampleVM [(''vmoperator.vmware.com/vsphere-customization'', ''disable'')]))
      (VSphereCustomizationBypassKey (constants (exampleCollaborators False)))
     = VSphereCustomizationBypassDisable (constants (exampleCollaborators False))
   \<and> selectTransport (exampleCollaborators False) (exampleResVM None None)
        (exampleVM [(''vmoperator.vmware.com/vsphere-customization'', ''disable'')])
        (exampleConfig []) (exampleArgs VirtualMachineMetadataOtherTransport [])
     = Inr (None, Some (GetLinuxPrepCustSpec (exampleCollaborators False) ''vm-1''
                          (exampleArgs VirtualMachineMetadataOtherTransport [])))
   \<and> calls (customize (exampleCollaborators False) (exampleResVM None None)
        (exampleVM [(''vmoperator.vmware.com/vsphere-customization'', ''disable'')])
        (exampleConfig []) (exampleArgs VirtualMachineMetadataOtherTransport [])) = []
   \<and> completion (customize (exampleCollaborators False) (exampleResVM None None)
        (exampleVM [(''vmoperator.vmware.com/vsphere-customization'', ''disable'')])
        (exampleConfig []) (exampleArgs VirtualMachineMetadataOtherTransport []))
     = Returns None
   \<and> map is_ReconfigureCall
        (calls (customize (exampleCollaborators False)
           (exampleResVM (Some (OtherError ''reconfigure refused'')) None)
           (exampleVM [(''vmoperator.vmware.com/vsphere-customization'', ''disable'')])
           \<lparr>ExtraConfig = [], VAppConfig = Some (Some \<lparr>Property = [''hostname'']\<rparr>)\<rparr>
           (exampleArgs VirtualMachineMetadataOvfEnvTransport [(''hostname'', ''vm-1'')])))
     = [True]
   \<and> completion (customize (exampleCollaborators False)
        (exampleResVM (Some (OtherError ''reconfigure refused'')) None)
        (exampleVM [(''vmoperator.vmware.com/vsphere-customization'', ''disable'')])
        \<lparr>ExtraConfig = [], VAppConfig = Some (Some \<lparr>Property = [''hostname'']\<rparr>)\<rparr>
        (exampleArgs VirtualMachineMetadataOvfEnvTransport [(''hostname'', ''vm-1'')]))
     = Returns (Some (OtherError ''reconfigure refused''))
   \<and> selectTransport (exampleCollaborators False)
        ((exampleResVM None None)\<lparr>GetNetworkDevices := Inl (OtherError ''no devices'')\<rparr>)
        (exampleVM [(''vmoperator.vmware.com/vsphere-customization'', ''disable'')])
        (exampleConfig [])
        (templateStep (exampleCollaborators False)
           (exampleVM [(''vmoperator.vmware.com/vsphere-customization'', ''disable'')])
           (exampleArgs VirtualMachineMetadataCloudInitTransport []))
     = Inl (OtherError ''no devices'')
   \<and> completion (customize (exampleCollaborators False)
        ((exampleResVM None None)\<lparr>GetNetworkDevices := Inl (OtherError ''no devices'')\<rparr>)
        (exampleVM [(''vmoperator.vmware.com/vsphere-customization'', ''disable'')])
        (exampleConfig [])
        (exampleArgs VirtualMachineMetadataCloudInitTransport []))
     = Returns (Some (OtherError ''no devices''))"
  using C8_bypass_no_customize [where E = "exampleCollaborators False"
      and resVM = "exampleResVM None None"
      and vm = "exampleVM [(''vmoperator.vmware.com/vsphere-customization'', ''disable'')]"
      and config = "exampleConfig []"
      and updateArgs = "exampleArgs VirtualMachineMetadataOtherTransport []"]
    C8_bypass_no_customize [where E = "exampleCollaborators False"
      and resVM = "exampleResVM (Some (OtherError ''reconfigure refused'')) None"
      and vm = "exampleVM [(''vmoperator.vmware.com/vsphere-customization'', ''disable'')]"
      and config = "\<lparr>ExtraConfig = [],
         VAppConfig = Some (Some \<lparr>Property = [''hostname'']\<rparr>)\<rparr>"
      and updateArgs = "exampleArgs VirtualMachineMetadataOvfEnvTransport
         [(''hostname'', ''vm-1'')]"]
    C8_bypass_no_customize [where E = "exampleCollaborators False"
      and resVM = "(exampleResVM None None)
         \<lparr>GetNetworkDevices := Inl (OtherError ''no devices'')\<rparr>"
      and vm = "exampleVM [(''vmoperator.vmware.com/vsphere-customization'', ''disable'')]"
      and config = "exampleConfig []"
      and updateArgs = "exampleArgs VirtualMachineMetadataCloudInitTransport []"]
  by (simp add: example_defs pass_defs)

text \<open>Claim C8 as stated fails: with the bypass annotation, the ExtraConfig transport (a
  custSpec is produced) and a Reconfigure call that fails, the pass returns the error of
  that call and not nil.\<close>

theorem C8_reconfigure_failure_counterexample:
  "selectTransport (exampleCollaborators False)
        (exampleResVM (Some (OtherError ''reconfigure failed'')) None)
        (exampleVM [(''vmoperator.vmware.com/vsphere-customization'', ''disable'')])
        (exampleConfig [])
        (exampleArgs VirtualMachineMetadataExtraConfigTransport [(''guestinfo.foo'', ''bar'')])
     = Inr (Some \<lparr>spec_ExtraConfig =
                    [Some \<lparr>Key = ''guestinfo.foo'', Value = StringValue ''bar''\<rparr>],
                  spec_VAppConfig = None, VAppConfigRemoved = None\<rparr>,
            Some (GetLinuxPrepCustSpec (exampleCollaborators False) ''vm-1''
                    (exampleArgs VirtualMachineMetadataExtraConfigTransport
                      [(''guestinfo.foo'', ''bar'')])))
   \<and> completion (customize (exampleCollaborators False)
        (exampleResVM (Some (OtherError ''reconfigure failed'')) None)
        (exampleVM [(''vmoperator.vmware.com/vsphere-customization'', ''disable'')])
        (exampleConfig [])
        (exampleArgs VirtualMachineMetadataExtraConfigTransport [(''guestinfo.foo'', ''bar'')]))
     = Returns (Some (OtherError ''reconfigure failed''))"
  by (simp add: example_defs pass_defs)

subsection \<open>The CloudInit transport, guest-info kind\<close>

lemma GuestInfoExtraConfig_result:
  assumes keys: "distinct [CloudInitGuestInfoMetadata (constants E),
        CloudInitGuestInfoMetadataEncoding (constants E),
        CloudInitGuestInfoUserdata (constants E),
        CloudInitGuestInfoUserdataEncoding (constants E)]"
    and enc: "EncodeGzipBase64 E cloudInitMetadata = Inr encodedMetadata"
    and data: "data = (if map_index (Data (VMMetadata updateArgs)) ''user-data'' \<noteq> []
                       then map_index (Data (VMMetadata updateArgs)) ''user-data''
                       else map_index (Data (VMMetadata updateArgs)) ''value'')"
    and ud: "data \<noteq> [] \<longrightarrow> TryToDecodeBase64Gzip E data = Inr plainText
                \<and> EncodeGzipBase64 E plainText = Inr encodedUserdata"
  shows "GuestInfoExtraConfig E cloudInitMetadata updateArgs
    = Inr ([(CloudInitGuestInfoMetadata (constants E), encodedMetadata),
            (CloudInitGuestInfoMetadataEncoding (constants E), ''gzip+base64'')]
           @ (if data = [] then []
              else [(CloudInitGuestInfoUserdata (constants E), encodedUserdata),
                    (CloudInitGuestInfoUserdataEncoding (constants E), ''gzip+base64'')]))"
  using assms by (auto simp: GuestInfoExtraConfig_def Let_def map_store_def)

text \<open>
  Claim C5, as amended. Take a pass with the CloudInit transport whose cloud-init-type
  annotation is unset or equal to the guest-info value, in which the network devices are
  read, the metadata document is marshalled and the codec encodes and decodes without
  error; the four guest-info keys are pairwise distinct constants and the cloud-init-prep
  value is neither empty nor the guest-info value (the cases of the \<^verbatim>\<open>switch\<close>).
  Then the selector returns a nil custSpec and a configSpec with \<open>VAppConfigRemoved\<close>
  true whose extra-config is the merge of the live entries with a map of updates: the
  updates hold the encoded metadata under the metadata key and \<^verbatim>\<open>gzip+base64\<close> under
  its encoding marker. When neither \<^verbatim>\<open>user-data\<close> nor \<^verbatim>\<open>value\<close> holds a
  non-empty string, the updates hold nothing else: no userdata key and no userdata
  encoding marker. Otherwise the userdata, taken from \<^verbatim>\<open>user-data\<close> and failing that
  from \<^verbatim>\<open>value\<close>, is decoded to plain text, encoded again and held under the userdata
  key, with \<^verbatim>\<open>gzip+base64\<close> under its encoding marker.
\<close>

theorem C5_cloud_init_guest_info:
  assumes tr: "Transport (VMMetadata updateArgs) = VirtualMachineMetadataCloudInitTransport"
    and ann: "map_index (Annotations vm) (CloudInitTypeAnnotation (constants E)) = []
              \<or> map_index (Annotations vm) (CloudInitTypeAnnotation (constants E))
                  = CloudInitTypeValueGuestInfo (constants E)"
    and prep: "CloudInitTypeValueCloudInitPrep (constants E) \<noteq> []"
      "CloudInitTypeValueCloudInitPrep (constants E) \<noteq> CloudInitTypeValueGuestInfo (constants E)"
    and keys: "distinct [CloudInitGuestInfoMetadata (constants E),
        CloudInitGuestInfoMetadataEncoding (constants E),
        CloudInitGuestInfoUserdata (constants E),
        CloudInitGuestInfoUserdataEncoding (constants E)]"
    and eth: "GetNetworkDevices resVM = Inr ethCards"
    and yaml: "yaml_Marshal E
        \<lparr>InstanceID = UID vm, LocalHostname = Name vm, Hostname = Name vm,
         Network = GetNetplan E (NetIfList updateArgs) ethCards (DNSServers updateArgs),
         PublicKeys = map_index (Data (VMMetadata updateArgs)) ''ssh-public-keys''\<rparr>
        = Inr cloudInitMetadata"
    and enc: "EncodeGzipBase64 E cloudInitMetadata = Inr encodedMetadata"
    and data: "data = (if map_index (Data (VMMetadata updateArgs)) ''user-data'' \<noteq> []
                       then map_index (Data (VMMetadata updateArgs)) ''user-data''
                       else map_index (Data (VMMetadata updateArgs)) ''value'')"
    and ud: "data \<noteq> [] \<longrightarrow> TryToDecodeBase64Gzip E data = Inr plainText
                \<and> EncodeGzipBase64 E plainText = Inr encodedUserdata"
  shows "\<exists>extraConfig.
      selectTransport E resVM vm config updateArgs
        = Inr (Some \<lparr>spec_ExtraConfig = MergeExtraConfig E (ExtraConfig config) extraConfig,
                     spec_VAppConfig = None,
                     VAppConfigRemoved = Some True\<rparr>,
               None)
      \<and> distinct (map fst extraConfig)
      \<and> map_of extraConfig (CloudInitGuestInfoMetadata (constants E)) = Some encodedMetadata
      \<and> map_of extraConfig (CloudInitGuestInfoMetadataEncoding (constants E))
          = Some ''gzip+base64''
      \<and> (if data = []
         then map_of extraConfig (CloudInitGuestInfoUserdata (constants E)) = None
              \<and> map_of extraConfig (CloudInitGuestInfoUserdataEncoding (constants E)) = None
              \<and> length extraConfig = 2
         else map_of extraConfig (CloudInitGuestInfoUserdata (constants E))
                = Some encodedUserdata
              \<and> map_of extraConfig (CloudInitGuestInfoUserdataEncoding (constants E))
                = Some ''gzip+base64''
              \<and> length extraConfig = 4)"
proof -
  let ?m = "[(CloudInitGuestInfoMetadata (constants E), encodedMetadata),
            (CloudInitGuestInfoMetadataEncoding (constants E), ''gzip+base64'')]
           @ (if data = [] then []
              else [(CloudInitGuestInfoUserdata (constants E), encodedUserdata),
                    (CloudInitGuestInfoUserdataEncoding (constants E), ''gzip+base64'')])"
  have m: "GuestInfoExtraConfig E cloudInitMetadata updateArgs = Inr ?m"
    by (rule GuestInfoExtraConfig_result [OF keys enc data ud])
  have branch: "map_index (Annotations vm) (CloudInitTypeAnnotation (constants E))
      \<noteq> CloudInitTypeValueCloudInitPrep (constants E)"
    using ann prep by auto
  have sel: "selectTransport E resVM vm config updateArgs
        = Inr (Some \<lparr>spec_ExtraConfig = MergeExtraConfig E (ExtraConfig config) ?m,
                     spec_VAppConfig = None,
                     VAppConfigRemoved = Some True\<rparr>,
               None)"
    using tr eth yaml branch m
    by (simp add: selectTransport_def customizeCloudInit_def GetCloudInitMetadata_def
        GetCloudInitGuestInfoCustSpec_def Let_def)
  have props: "distinct (map fst ?m)
      \<and> map_of ?m (CloudInitGuestInfoMetadata (constants E)) = Some encodedMetadata
      \<and> map_of ?m (CloudInitGuestInfoMetadataEncoding (constants E)) = Some ''gzip+base64''
      \<and> (if data = []
         then map_of ?m (CloudInitGuestInfoUserdata (constants E)) = None
              \<and> map_of ?m (CloudInitGuestInfoUserdataEncoding (constants E)) = None
              \<and> length ?m = 2
         else map_of ?m (CloudInitGuestInfoUserdata (constants E)) = Some encodedUserdata
              \<and> map_of ?m (CloudInitGuestInfoUserdataEncoding (constants E))
                = Some ''gzip+base64''
              \<and> length ?m = 4)"
    using keys by auto
  show ?thesis
    using sel props by blast
qed

text \<open>The theorem at a VM with the CloudInit transport, no annotation and no
  userdata.\<close>

theorem C5_cloud_init_guest_info_witness:
  "Transport (VMMetadata (exampleArgs VirtualMachineMetadataCloudInitTransport []))
     = VirtualMachineMetadataCloudInitTransport
   \<and> map_index (Annotations (exampleVM []))
        (CloudInitTypeAnnotation (constants (exampleCollaborators False))) = []
   \<and> map_index (Data (VMMetadata (exampleArgs VirtualMachineMetadataCloudInitTransport [])))
        ''user-data'' = []
   \<and> map_index (Data (VMMetadata (exampleArgs VirtualMachineMetadataCloudInitTransport [])))
        ''value'' = []
   \<and> selectTransport (exampleCollaborators False) (exampleResVM None None) (exampleVM [])
        (exampleConfig []) (exampleArgs VirtualMachineMetadataCloudInitTransport [])
     = Inr (Some \<lparr>spec_ExtraConfig =
                    [Some \<lparr>Key = ''guestinfo.metadata'',
                           Value = StringValue ''gz+b64:instance-id: uid-1''\<rparr>,
                     Some \<lparr>Key = ''guestinfo.metadata.encoding'',
                           Value = StringValue ''gzip+base64''\<rparr>],
                  spec_VAppConfig = None, VAppConfigRemoved = Some True\<rparr>,
            None)"
proof -
  let ?E = "exampleCollaborators False"
  let ?args = "exampleArgs VirtualMachineMetadataCloudInitTransport []"
  have tr: "Transport (VMMetadata ?args) = VirtualMachineMetadataCloudInitTransport"
    by (simp add: exampleArgs_def)
  have ann: "map_index (Annotations (exampleVM [])) (CloudInitTypeAnnotation (constants ?E)) = []
      \<or> map_index (Annotations (exampleVM [])) (CloudInitTypeAnnotation (constants ?E))
          = CloudInitTypeValueGuestInfo (constants ?E)"
    by (simp add: example_defs map_index_def)
  have prep: "CloudInitTypeValueCloudInitPrep (constants ?E) \<noteq> []"
    "CloudInitTypeValueCloudInitPrep (constants ?E) \<noteq> CloudInitTypeValueGuestInfo (constants ?E)"
    by (simp_all add: example_defs)
  have keys: "distinct [CloudInitGuestInfoMetadata (constants ?E),
        CloudInitGuestInfoMetadataEncoding (constants ?E),
        CloudInitGuestInfoUserdata (constants ?E),
        CloudInitGuestInfoUserdataEncoding (constants ?E)]"
    by (simp add: example_defs)
  have eth: "GetNetworkDevices (exampleResVM None None) = Inr ()"
    by (simp add: example_defs)
  have yaml: "yaml_Marshal ?E
        \<lparr>InstanceID = UID (exampleVM []), LocalHostname = Name (exampleVM []),
         Hostname = Name (exampleVM []),
         Network = GetNetplan ?E (NetIfList ?args) () (DNSServers ?args),
         PublicKeys = map_index (Data (VMMetadata ?args)) ''ssh-public-keys''\<rparr>
        = Inr ''instance-id: uid-1''"
    by (simp add: example_defs)
  have enc: "EncodeGzipBase64 ?E ''instance-id: uid-1'' = Inr ''gz+b64:instance-id: uid-1''"
    by (simp add: example_defs)
  have data: "[] = (if map_index (Data (VMMetadata ?args)) ''user-data'' \<noteq> []
                     then map_index (Data (VMMetadata ?args)) ''user-data''
                     else map_index (Data (VMMetadata ?args)) ''value'')"
    by (simp add: example_defs map_index_def)
  have ud: "[] \<noteq> ([]::string) \<longrightarrow> TryToDecodeBase64Gzip ?E [] = Inr []
      \<and> EncodeGzipBase64 ?E [] = Inr []"
    by simp
  from C5_cloud_init_guest_info [OF tr ann prep keys eth yaml enc data ud,
      where config = "exampleConfig []"]
  show ?thesis
    by (simp add: example_defs pass_defs)
qed

text \<open>Claim C5 as stated fails: in a pass with the CloudInit transport, no annotation
  and no userdata in which the network devices cannot be read, the selector returns the
  error and no configSpec.\<close>

theorem C5_network_devices_error_counterexample:
  "selectTransport (exampleCollaborators False)
     ((exampleResVM None None)
        \<lparr>GetNetworkDevices := Inl (OtherError ''network devices unavailable'')\<rparr>)
     (exampleVM []) (exampleConfig [])
     (exampleArgs VirtualMachineMetadataCloudInitTransport [])
   = Inl (OtherError ''network devices unavailable'')"
  by (simp add: example_defs pass_defs)

subsection \<open>The reconfiguration step\<close>

lemma selectTransport_resVM:
  "GetNetworkDevices resVM' = GetNetworkDevices resVM
   \<Longrightarrow> selectTransport E resVM' vm config updateArgs
       = selectTransport E resVM vm config updateArgs"
  by (simp add: selectTransport_def customizeCloudInit_def
      split: VirtualMachineMetadataTransport.splits)

lemma reconfigureStep_submits:
  "snd (reconfigureStep resVM configSpec)
     = (case configSpec of
          None \<Rightarrow> []
        | Some spec \<Rightarrow>
            if SemanticDeepEqual spec defaultConfigSpec then [] else [ReconfigureCall spec])"
  by (simp add: reconfigureStep_def split: option.splits)

lemma customizeStep_calls:
  "filter is_ReconfigureCall (snd (customizeStep E resVM vm config custSpec)) = []"
  by (simp add: customizeStep_def split: option.splits bool.splits)

lemma customize_reconfigure_calls:
  "filter is_ReconfigureCall (calls (customize E resVM vm config updateArgs))
     = (case selectTransport E resVM vm config (templateStep E vm updateArgs) of
          Inl err \<Rightarrow> []
        | Inr (configSpec, custSpec) \<Rightarrow>
            (case configSpec of
               None \<Rightarrow> []
             | Some spec \<Rightarrow>
                 if SemanticDeepEqual spec defaultConfigSpec then []
                 else [ReconfigureCall spec]))"
proof (cases "selectTransport E resVM vm config (templateStep E vm updateArgs)")
  case (Inl err)
  then show ?thesis by (simp add: customize_def Let_def)
next
  case (Inr specs)
  obtain configSpec custSpec where specs: "specs = (configSpec, custSpec)" by (cases specs)
  obtain err cs where r: "reconfigureStep resVM configSpec = (err, cs)"
    by (cases "reconfigureStep resVM configSpec")
  have cs: "cs = (case configSpec of
          None \<Rightarrow> []
        | Some spec \<Rightarrow>
            if SemanticDeepEqual spec defaultConfigSpec then [] else [ReconfigureCall spec])"
    using reconfigureStep_submits [of resVM configSpec] r by simp
  obtain fin cs' where c: "customizeStep E resVM vm config custSpec = (fin, cs')"
    by (cases "customizeStep E resVM vm config custSpec")
  have cs': "filter is_ReconfigureCall cs' = []"
    using customizeStep_calls [of E resVM vm config custSpec] c by simp
  show ?thesis
    using Inr specs r c cs cs'
    by (cases err) (auto simp: customize_def Let_def split: option.splits)
qed

lemma ReconfigureCall_in_filter:
  "ReconfigureCall spec \<in> set cs \<longleftrightarrow> ReconfigureCall spec \<in> set (filter is_ReconfigureCall cs)"
  by simp

lemma customizeCloudInit_removes_vapp:
  "customizeCloudInit E resVM vm config updateArgs = Inr (Some spec, custSpec)
   \<Longrightarrow> VAppConfigRemoved spec = Some True"
  by (auto simp: customizeCloudInit_def GetCloudInitGuestInfoCustSpec_def Let_def
      split: sum.splits if_splits)

text \<open>
  Claim C6, as amended. Two passes over the same live configuration snapshot, the same
  network devices and the same arguments, whatever the Reconfigure and Customize calls
  answer in each, obtain the same specs from the transport selector and take the same
  decision on reconfiguration: the second pass submits Reconfigure exactly when the first
  did. A pass submits a configSpec exactly when the selector returned it and it is not
  semantically equal to the zero-value spec, so such a spec is never submitted. With the
  CloudInit transport every configSpec the selector returns is submitted (it carries
  \<open>VAppConfigRemoved\<close> and so never equals the zero-value spec).
\<close>

theorem C6_reconfigure_decision:
  assumes "GetNetworkDevices resVM' = GetNetworkDevices resVM"
  shows "selectTransport E resVM' vm config (templateStep E vm updateArgs)
           = selectTransport E resVM vm config (templateStep E vm updateArgs)
    \<and> filter is_ReconfigureCall (calls (customize E resVM' vm config updateArgs))
        = filter is_ReconfigureCall (calls (customize E resVM vm config updateArgs))
    \<and> (\<forall>spec. ReconfigureCall spec \<in> set (calls (customize E resVM vm config updateArgs))
          \<longleftrightarrow> (\<exists>custSpec. selectTransport E resVM vm config (templateStep E vm updateArgs)
                             = Inr (Some spec, custSpec))
               \<and> \<not> SemanticDeepEqual spec defaultConfigSpec)
    \<and> (Transport (VMMetadata updateArgs) = VirtualMachineMetadataCloudInitTransport
        \<longrightarrow> (\<forall>spec custSpec.
               selectTransport E resVM vm config (templateStep E vm updateArgs)
                 = Inr (Some spec, custSpec)
               \<longrightarrow> ReconfigureCall spec
                     \<in> set (calls (customize E resVM vm config updateArgs))))"
proof -
  have sel: "selectTransport E resVM' vm config (templateStep E vm updateArgs)
           = selectTransport E resVM vm config (templateStep E vm updateArgs)"
    using assms by (rule selectTransport_resVM)
  have same: "filter is_ReconfigureCall (calls (customize E resVM' vm config updateArgs))
        = filter is_ReconfigureCall (calls (customize E resVM vm config updateArgs))"
    by (simp add: customize_reconfigure_calls sel)
  have iff: "ReconfigureCall spec \<in> set (calls (customize E resVM vm config updateArgs))
          \<longleftrightarrow> (\<exists>custSpec. selectTransport E resVM vm config (templateStep E vm updateArgs)
                             = Inr (Some spec, custSpec))
               \<and> \<not> SemanticDeepEqual spec defaultConfigSpec" for spec
    unfolding ReconfigureCall_in_filter [of spec "calls (customize E resVM vm config updateArgs)"]
      customize_reconfigure_calls
    by (cases "selectTransport E resVM vm config (templateStep E vm updateArgs)")
      (auto split: option.splits)
  have cloud: "ReconfigureCall spec \<in> set (calls (customize E resVM vm config updateArgs))"
    if tr: "Transport (VMMetadata updateArgs) = VirtualMachineMetadataCloudInitTransport"
      and s: "selectTransport E resVM vm config (templateStep E vm updateArgs)
                 = Inr (Some spec, custSpec)" for spec custSpec
  proof -
    have "customizeCloudInit E resVM vm config (templateStep E vm updateArgs)
        = Inr (Some spec, custSpec)"
      using s tr by (simp add: selectTransport_def templateStep_fields)
    then have "VAppConfigRemoved spec = Some True"
      by (rule customizeCloudInit_removes_vapp)
    then have "\<not> SemanticDeepEqual spec defaultConfigSpec"
      by (auto simp: SemanticDeepEqual_def defaultConfigSpec_def)
    then show ?thesis
      using iff [of spec] s by blast
  qed
  show ?thesis
    using sel same iff cloud by blast
qed

text \<open>The theorem at two passes with the OvfEnv transport over a VM without vApp
  configuration, the Customize call failing in one of them: neither submits
  Reconfigure.\<close>

theorem C6_reconfigure_decision_witness:
  "GetNetworkDevices (exampleResVM None (Some (OtherError ''customize failed'')))
     = GetNetworkDevices (exampleResVM None None)
   \<and> filter is_ReconfigureCall
        (calls (customize (exampleCollaborators False)
           (exampleResVM None (Some (OtherError ''customize failed''))) (exampleVM [])
           (exampleConfig [])
           (exampleArgs VirtualMachineMetadataOvfEnvTransport [(''hostname'', ''vm-1'')])))
     = filter is_ReconfigureCall
        (calls (customize (exampleCollaborators False) (exampleResVM None None) (exampleVM [])
           (exampleConfig [])
           (exampleArgs VirtualMachineMetadataOvfEnvTransport [(''hostname'', ''vm-1'')])))
   \<and> filter is_ReconfigureCall
        (calls (customize (exampleCollaborators False) (exampleResVM None None) (exampleVM [])
           (exampleConfig [])
           (exampleArgs VirtualMachineMetadataOvfEnvTransport [(''hostname'', ''vm-1'')])))
     = []"
  using C6_reconfigure_decision [where E = "exampleCollaborators False"
      and resVM' = "exampleResVM None (Some (OtherError ''customize failed''))"
      and resVM = "exampleResVM None None" and vm = "exampleVM []"
      and config = "exampleConfig []"
      and updateArgs = "exampleArgs VirtualMachineMetadataOvfEnvTransport
         [(''hostname'', ''vm-1'')]"]
  by (simp add: example_defs pass_defs)

text \<open>Claim C6 as stated fails: a pass with the CloudInit transport of the guest-info kind
  submits Reconfigure, and a second pass over the same snapshot and the same arguments is
  this same pass, so it does not skip the call.\<close>

theorem C6_second_pass_reconfigures_counterexample:
  "calls (customize (exampleCollaborators False) (exampleResVM None None) (exampleVM [])
      (exampleConfig []) (exampleArgs VirtualMachineMetadataCloudInitTransport []))
     = [ReconfigureCall
          \<lparr>spec_ExtraConfig =
             [Some \<lparr>Key = ''guestinfo.metadata'',
                    Value = StringValue ''gz+b64:instance-id: uid-1''\<rparr>,
              Some \<lparr>Key = ''guestinfo.metadata.encoding'',
                    Value = StringValue ''gzip+base64''\<rparr>],
           spec_VAppConfig = None, VAppConfigRemoved = Some True\<rparr>]"
  by (simp add: example_defs pass_defs)

subsection \<open>The ExtraConfig transport\<close>

lemma update_fresh: "k \<notin> fst ` set xs \<Longrightarrow> AList.update k v xs = xs @ [(k, v)]"
  by (induction xs) auto

lemma fold_prefixed:
  "distinct (map fst (acc @ data))
   \<Longrightarrow> fold (\<lambda>(k, v) extraConfig. if p k then map_store extraConfig k v else extraConfig)
         data acc
       = acc @ filter (\<lambda>(k, v). p k) data"
proof (induction data arbitrary: acc)
  case Nil
  then show ?case by simp
next
  case (Cons e data)
  obtain k v where e: "e = (k, v)" by (cases e)
  have fresh: "k \<notin> fst ` set acc"
    using Cons.prems by (auto simp: e)
  show ?case
  proof (cases "p k")
    case True
    have "distinct (map fst ((acc @ [(k, v)]) @ data))"
      using Cons.prems by (simp add: e)
    from Cons.IH [OF this] True fresh show ?thesis
      by (simp add: e map_store_def update_fresh)
  next
    case False
    have "distinct (map fst (acc @ data))"
      using Cons.prems by (simp add: e)
    from Cons.IH [OF this] False show ?thesis
      by (simp add: e)
  qed
qed

lemma PrefixedExtraConfig_filter:
  "distinct (map fst data)
   \<Longrightarrow> PrefixedExtraConfig C data
       = filter (\<lambda>(k, v). prefix (ExtraConfigGuestInfoPrefix C) k) data"
  using fold_prefixed [of "[]" data "\<lambda>k. HasPrefix k (ExtraConfigGuestInfoPrefix C)"]
  by (simp add: PrefixedExtraConfig_def HasPrefix_def)

text \<open>
  Claim C7. With the ExtraConfig transport (the metadata mapping, a Go map, has distinct
  keys), the updates from which the extra-config of the configSpec is merged are exactly
  the entries of the metadata mapping whose key has the guest-info prefix, each with its
  value as it is; when no key has the prefix the configSpec is nil. In both cases the
  selector also returns the Linux-prep identity-customization-spec: the host name is the
  name of the VM, the hardware clock is UTC, with the DNS servers and the per-NIC
  settings of the arguments.
\<close>

theorem C7_extra_config_transport:
  assumes tr: "Transport (VMMetadata updateArgs) = VirtualMachineMetadataExtraConfigTransport"
    and keys: "distinct (map fst (Data (VMMetadata updateArgs)))"
  shows "\<exists>extraConfig.
      set extraConfig
        = {(k, v). (k, v) \<in> set (Data (VMMetadata updateArgs))
                   \<and> prefix (ExtraConfigGuestInfoPrefix (constants E)) k}
      \<and> distinct (map fst extraConfig)
      \<and> selectTransport E resVM vm config updateArgs
        = Inr (if extraConfig = [] then None
               else Some \<lparr>spec_ExtraConfig = MergeExtraConfig E (ExtraConfig config) extraConfig,
                          spec_VAppConfig = None,
                          VAppConfigRemoved = None\<rparr>,
               Some \<lparr>Identity = CustomizationLinuxPrep (Name vm) (Some True),
                     DnsServerList = DNSServers updateArgs,
                     NicSettingMap = GetInterfaceCustomizations E (NetIfList updateArgs)\<rparr>)"
proof -
  let ?m = "filter (\<lambda>(k, v). prefix (ExtraConfigGuestInfoPrefix (constants E)) k)
              (Data (VMMetadata updateArgs))"
  have m: "PrefixedExtraConfig (constants E) (Data (VMMetadata updateArgs)) = ?m"
    using keys by (rule PrefixedExtraConfig_filter)
  have s: "set ?m = {(k, v). (k, v) \<in> set (Data (VMMetadata updateArgs))
                   \<and> prefix (ExtraConfigGuestInfoPrefix (constants E)) k}"
    by auto
  have d: "distinct (map fst ?m)"
    using keys by (simp add: distinct_map_filter)
  have sel: "selectTransport E resVM vm config updateArgs
        = Inr (if ?m = [] then None
               else Some \<lparr>spec_ExtraConfig = MergeExtraConfig E (ExtraConfig config) ?m,
                          spec_VAppConfig = None,
                          VAppConfigRemoved = None\<rparr>,
               Some \<lparr>Identity = CustomizationLinuxPrep (Name vm) (Some True),
                     DnsServerList = DNSServers updateArgs,
                     NicSettingMap = GetInterfaceCustomizations E (NetIfList updateArgs)\<rparr>)"
    using tr m
    by (simp add: selectTransport_def GetExtraConfigCustSpec_def GetLinuxPrepCustSpec_def
        Let_def)
  show ?thesis
    using s d sel by blast
qed

text \<open>The theorem at a metadata mapping with one guest-info key and one other
  key.\<close>

theorem C7_extra_config_transport_witness:
  "Transport (VMMetadata (exampleArgs VirtualMachineMetadataExtraConfigTransport
       [(''guestinfo.foo'', ''bar''), (''hostname'', ''vm-1'')]))
     = VirtualMachineMetadataExtraConfigTransport
   \<and> distinct (map fst (Data (VMMetadata (exampleArgs VirtualMachineMetadataExtraConfigTransport
       [(''guestinfo.foo'', ''bar''), (''hostname'', ''vm-1'')]))))
   \<and> selectTransport (exampleCollaborators False) (exampleResVM None None) (exampleVM [])
        (exampleConfig [])
        (exampleArgs VirtualMachineMetadataExtraConfigTransport
           [(''guestinfo.foo'', ''bar''), (''hostname'', ''vm-1'')])
     = Inr (Some \<lparr>spec_ExtraConfig =
                    [Some \<lparr>Key = ''guestinfo.foo'', Value = StringValue ''bar''\<rparr>],
                  spec_VAppConfig = None, VAppConfigRemoved = None\<rparr>,
            Some \<lparr>Identity = CustomizationLinuxPrep ''vm-1'' (Some True),
                  DnsServerList = [''8.8.8.8''],
                  NicSettingMap =
                    [\<lparr>IP = ''10.0.0.5'', SubnetMask = ''255.255.255.0'',
                      Gateway = ''10.0.0.1''\<rparr>]\<rparr>)"
  using C7_extra_config_transport [where E = "exampleCollaborators False"
      and resVM = "exampleResVM None None" and vm = "exampleVM []"
      and config = "exampleConfig []"
      and updateArgs = "exampleArgs VirtualMachineMetadataExtraConfigTransport
           [(''guestinfo.foo'', ''bar''), (''hostname'', ''vm-1'')]"]
  by (simp add: example_defs pass_defs)

subsection \<open>The status of the network devices\<close>

lemma NicInfoToDevicesStatus_loop_map:
  "NicInfoToDevicesStatus_loop E infos acc
     = acc @ map (\<lambda>info. \<lparr>Gateway4 = Gateway (IPConfiguration info),
                           IPAddresses = [ToCidrNotation E (IP (IPConfiguration info))
                                            (SubnetMask (IPConfiguration info))]\<rparr>) infos"
  by (induction infos arbitrary: acc) (simp_all add: Let_def)

text \<open>
  Claim C9. The status list has one entry for each NIC descriptor of the arguments, in
  the order of the descriptors, whatever the DNS list: the entry of a descriptor has its
  gateway as \<open>Gateway4\<close> and, as \<open>IPAddresses\<close>, the one-element list of the CIDR
  notation of its IP and subnet mask. With the CIDR notation of the specification,
  10.0.0.5 with mask 255.255.255.0 is \<^verbatim>\<open>10.0.0.5/24\<close>.
\<close>

theorem C9_devices_status:
  "length (NicInfoToDevicesStatus E updateArgs) = length (NetIfList updateArgs)
   \<and> (\<forall>i < length (NetIfList updateArgs).
         Gateway4 (NicInfoToDevicesStatus E updateArgs ! i)
           = Gateway (IPConfiguration (NetIfList updateArgs ! i))
         \<and> IPAddresses (NicInfoToDevicesStatus E updateArgs ! i)
           = [ToCidrNotation E (IP (IPConfiguration (NetIfList updateArgs ! i)))
                (SubnetMask (IPConfiguration (NetIfList updateArgs ! i)))])
   \<and> ToCidrNotation_spec ''10.0.0.5'' ''255.255.255.0'' = ''10.0.0.5/24''"
proof -
  have "ToCidrNotation_spec ''10.0.0.5'' ''255.255.255.0'' = ''10.0.0.5/24''"
    by (simp add: ToCidrNotation_spec_def parseOctet_def bitCount_def digitValue_def)
  then show ?thesis
    by (simp add: NicInfoToDevicesStatus_def NicInfoToDevicesStatus_loop_map)
qed

text \<open>The theorem at the NIC 10.0.0.5, mask 255.255.255.0, gateway 10.0.0.1.\<close>

theorem C9_devices_status_witness:
  "(0::nat) < length (NetIfList (exampleArgs VirtualMachineMetadataOtherTransport []))
   \<and> NicInfoToDevicesStatus (exampleCollaborators False)
        (exampleArgs VirtualMachineMetadataOtherTransport [])
     = [\<lparr>Gateway4 = ''10.0.0.1'', IPAddresses = [''10.0.0.5/24'']\<rparr>]"
proof -
  let ?r = "NicInfoToDevicesStatus (exampleCollaborators False)
        (exampleArgs VirtualMachineMetadataOtherTransport [])"
  have n: "(0::nat) < length (NetIfList (exampleArgs VirtualMachineMetadataOtherTransport []))"
    by (simp add: exampleArgs_def)
  from C9_devices_status [of "exampleCollaborators False"
      "exampleArgs VirtualMachineMetadataOtherTransport []"] n
  have len: "length ?r = 1" and g: "Gateway4 (?r ! 0) = ''10.0.0.1''"
    and a: "IPAddresses (?r ! 0) = [''10.0.0.5/24'']"
    by (simp_all add: exampleArgs_def exampleCollaborators_def)
  obtain d where r: "?r = [d]"
    using len by (cases ?r) auto
  have "d = \<lparr>Gateway4 = ''10.0.0.1'', IPAddresses = [''10.0.0.5/24'']\<rparr>"
    using g a r by simp
  then show ?thesis
    using n r by simp
qed

subsection \<open>The OvfEnv transport without vApp configuration\<close>

lemma customize_without_configSpec:
  assumes "selectTransport E resVM vm config (templateStep E vm updateArgs)
             = Inr (None, custSpec)"
  shows "customize E resVM vm config updateArgs
    = \<lparr>completion = fst (customizeStep E resVM vm config custSpec),
       calls = snd (customizeStep E resVM vm config custSpec),
       stored = Data (VMMetadata (templateStep E vm updateArgs))\<rparr>"
  using assms
  by (simp add: customize_def Let_def reconfigureStep_def split: prod.splits)

text \<open>
  Claim C10. With the OvfEnv transport and a live configuration without vApp
  configuration (its \<open>VAppConfig\<close> is nil, or the \<open>VmConfigInfo\<close> of it is nil), the
  selector returns a nil configSpec and the Linux-prep identity-customization-spec; the
  pass makes no Reconfigure call, and it ends and calls as its customization step does on
  that spec.
\<close>

theorem C10_ovf_env_without_vapp:
  assumes tr: "Transport (VMMetadata updateArgs) = VirtualMachineMetadataOvfEnvTransport"
    and vapp: "VAppConfig config = None \<or> VAppConfig config = Some None"
  shows "selectTransport E resVM vm config updateArgs
      = Inr (None, Some \<lparr>Identity = CustomizationLinuxPrep (Name vm) (Some True),
                          DnsServerList = DNSServers updateArgs,
                          NicSettingMap =
                            GetInterfaceCustomizations E (NetIfList updateArgs)\<rparr>)
    \<and> (\<forall>spec. ReconfigureCall spec \<notin> set (calls (customize E resVM vm config updateArgs)))
    \<and> completion (customize E resVM vm config updateArgs)
        = fst (customizeStep E resVM vm config
                 (Some \<lparr>Identity = CustomizationLinuxPrep (Name vm) (Some True),
                        DnsServerList = DNSServers updateArgs,
                        NicSettingMap =
                          GetInterfaceCustomizations E (NetIfList updateArgs)\<rparr>))
    \<and> calls (customize E resVM vm config updateArgs)
        = snd (customizeStep E resVM vm config
                 (Some \<lparr>Identity = CustomizationLinuxPrep (Name vm) (Some True),
                        DnsServerList = DNSServers updateArgs,
                        NicSettingMap =
                          GetInterfaceCustomizations E (NetIfList updateArgs)\<rparr>))"
proof -
  let ?cust = "\<lparr>Identity = CustomizationLinuxPrep (Name vm) (Some True),
                DnsServerList = DNSServers updateArgs,
                NicSettingMap = GetInterfaceCustomizations E (NetIfList updateArgs)\<rparr>"
  have none: "GetOvfEnvCustSpec E config args = None" for args
    using vapp by (auto simp: GetOvfEnvCustSpec_def)
  have sel: "selectTransport E resVM vm config updateArgs = Inr (None, Some ?cust)"
    using tr by (simp add: selectTransport_def none GetLinuxPrepCustSpec_def)
  have sel': "selectTransport E resVM vm config (templateStep E vm updateArgs)
      = Inr (None, Some ?cust)"
    using tr by (simp add: selectTransport_def none GetLinuxPrepCustSpec_def templateStep_fields)
  note pass = customize_without_configSpec [OF sel']
  have no_rec: "ReconfigureCall spec \<notin> set (calls (customize E resVM vm config updateArgs))"
    for spec
    using customize_reconfigure_calls [of E resVM vm config updateArgs] sel'
      ReconfigureCall_in_filter [of spec "calls (customize E resVM vm config updateArgs)"]
    by simp
  show ?thesis
    using sel no_rec pass by simp
qed

text \<open>The theorem at a VM with the OvfEnv transport and no vApp configuration.\<close>

theorem C10_ovf_env_without_vapp_witness:
  "Transport (VMMetadata (exampleArgs VirtualMachineMetadataOvfEnvTransport
       [(''hostname'', ''vm-1'')])) = VirtualMachineMetadataOvfEnvTransport
   \<and> VAppConfig (exampleConfig []) = None
   \<and> customize (exampleCollaborators False) (exampleResVM None None) (exampleVM [])
        (exampleConfig [])
        (exampleArgs VirtualMachineMetadataOvfEnvTransport [(''hostname'', ''vm-1'')])
     = \<lparr>completion = Returns None,
        calls = [CustomizeCall
                   \<lparr>Identity = CustomizationLinuxPrep ''vm-1'' (Some True),
                    DnsServerList = [''8.8.8.8''],
                    NicSettingMap =
                      [\<lparr>IP = ''10.0.0.5'', SubnetMask = ''255.255.255.0'',
                        Gateway = ''10.0.0.1''\<rparr>]\<rparr>],
        stored = [(''hostname'', ''vm-1'')]\<rparr>"
  using C10_ovf_env_without_vapp [where E = "exampleCollaborators False"
      and resVM = "exampleResVM None None" and vm = "exampleVM []"
      and config = "exampleConfig []"
      and updateArgs = "exampleArgs VirtualMachineMetadataOvfEnvTransport
          [(''hostname'', ''vm-1'')]"]
  by (simp add: example_defs pass_defs)

end
